theory Spec2Isabelle
  imports Complex_Main "HOL-Library.Char_ord" "HOL-Library.List_Lexorder" "HOL-Library.AList"
    "HOL-Library.Multiset"
begin

section \<open>Data model (internal/models)\<close>

text \<open>
  A shallow embedding of the repository layer, the service layer and the in-process
  aggregation of the expense tracker backend.

  Conventions of the embedding.
  \<^item> Go's \<open>float64\<close> amounts are read as exact real numbers: every sum, negation and
    quotient below is the exact one, so statements about totals hold up to the rounding of
    the machine arithmetic.
  \<^item> A \<open>time.Time\<close> is its instant (seconds since the Unix epoch and nanoseconds) together
    with the offset of its location, which only \<open>Format\<close> looks at.
  \<^item> Go strings are byte strings: \<open>string\<close> here, one \<open>char\<close> per byte.
  \<^item> An \<open>error\<close> value is the chain of messages \<open>fmt.Errorf\<close> builds.
  \<^item> \<open>time.Now()\<close> and \<open>uuid.New()\<close> are arguments of the functions that call them; the
    clock readings within one call are one instant.
\<close>

record Time =
  Unix :: int
  Nanos :: nat
  Zone :: int

text \<open>The zero \<open>time.Time\<close> is January 1, year 1, 00:00:00 UTC.\<close>

definition zeroTime :: Time where
  "zeroTime = \<lparr>Unix = - 62135596800, Nanos = 0, Zone = 0\<rparr>"

definition IsZero :: "Time \<Rightarrow> bool" where
  "IsZero t = (Unix t = - 62135596800 \<and> Nanos t = 0)"

text \<open>
  The functions of the Go standard library that the keys depend on and that are not part of
  the repository: \<open>strings.ToUpper\<close> and \<open>Time.Format("2006-01")\<close>.
\<close>

record Stdlib =
  ToUpper :: "string \<Rightarrow> string"
  Format_2006_01 :: "Time \<Rightarrow> string"

record Transaction =
  ID :: string
  Date :: Time
  Amount :: real
  Description :: string
  Category :: string
  Type :: string
  UserID :: string
  PK :: string
  SK :: string
  GSI1PK :: string
  GSI1SK :: string
  GSI2PK :: string
  GSI2SK :: string
  CreatedAt :: Time
  UpdatedAt :: Time
  Version :: int

definition TransactionTypeIncome :: string where
  "TransactionTypeIncome = ''income''"

definition TransactionTypeExpense :: string where
  "TransactionTypeExpense = ''expense''"

datatype error =
  ConditionalCheckFailedException
  | ValidationException
  | ProvisionedThroughputExceededException
  | Err string
  | Wrap string error
  | Panic string
  | Not_finite

subsection \<open>\<open>fmt.Sprintf("%d", n)\<close>\<close>

definition digit :: "nat \<Rightarrow> char" where
  "digit n = ''0123456789'' ! n"

function show_nat :: "nat \<Rightarrow> string" where
  "show_nat n = (if n < 10 then [digit n] else show_nat (n div 10) @ [digit (n mod 10)])"
  by pat_completeness auto
termination
  by (relation "measure id") auto

declare show_nat.simps [simp del]

definition show_int :: "int \<Rightarrow> string" where
  "show_int i = (if i < 0 then CHR ''-'' # show_nat (nat (- i)) else show_nat (nat i))"

subsection \<open>Key Builder: \<open>Transaction.GenerateKeys\<close>\<close>

definition GenerateKeys :: "Stdlib \<Rightarrow> Transaction \<Rightarrow> Transaction" where
  "GenerateKeys L t = t
     \<lparr>PK := ''USER#'' @ UserID t,
      SK := ''TRANSACTION#'' @ show_int (Unix (Date t)) @ ''#'' @ ID t,
      GSI1PK := ''MONTH#'' @ Format_2006_01 L (Date t) @ ''#'' @ UserID t,
      GSI1SK := ''TRANSACTION#'' @ show_int (Unix (Date t)),
      GSI2PK := ''CATEGORY#'' @ ToUpper L (Category t) @ ''#'' @ UserID t,
      GSI2SK := ''TRANSACTION#'' @ show_int (Unix (Date t))\<rparr>"

text \<open>\<open>Transaction.Validate\<close>: the entity validation of the model package.\<close>

definition Validate :: "Transaction \<Rightarrow> error option" where
  "Validate t =
     (if UserID t = [] then Some (Err ''user_id is required'')
      else if Amount t = 0 then Some (Err ''amount must be non-zero'')
      else if Type t \<noteq> ''income'' \<and> Type t \<noteq> ''expense''
        then Some (Err (''type must be 'income' or 'expense'' @ [CHR 0x27]))
      else if Category t = [] then Some (Err ''category is required'')
      else if IsZero (Date t) then Some (Err ''date is required'')
      else None)"

section \<open>The document store\<close>

text \<open>
  The table is the list of its items. An item is either the marshalled form of a
  \<open>Transaction\<close> (the SDK's \<open>MarshalMap\<close> and \<open>UnmarshalMap\<close> are inverse on it, so the
  item is the record itself) or any other item under a primary key, which
  \<open>FromDynamoDBItem\<close> rejects and which carries neither index keys nor a numeric
  \<open>version\<close> attribute. Transport failures of single-item calls are not modelled; a
  query answers in one page.
\<close>

datatype Item = TxItem Transaction | Opaque string string

type_synonym Table = "Item list"

fun item_PK :: "Item \<Rightarrow> string" where
  "item_PK (TxItem t) = PK t"
| "item_PK (Opaque p s) = p"

fun item_SK :: "Item \<Rightarrow> string" where
  "item_SK (TxItem t) = SK t"
| "item_SK (Opaque p s) = s"

definition key_of :: "Item \<Rightarrow> string \<times> string" where
  "key_of i = (item_PK i, item_SK i)"

definition get_item :: "Table \<Rightarrow> string \<times> string \<Rightarrow> Item option" where
  "get_item tbl k = find (\<lambda>i. key_of i = k) tbl"

text \<open>A put replaces the item under the same primary key, or adds the item.\<close>

definition put_item :: "Table \<Rightarrow> Item \<Rightarrow> Table" where
  "put_item tbl i =
     (if get_item tbl (key_of i) = None then tbl @ [i]
      else map (\<lambda>j. if key_of j = key_of i then i else j) tbl)"

definition delete_item :: "Table \<Rightarrow> string \<times> string \<Rightarrow> Table" where
  "delete_item tbl k = filter (\<lambda>i. key_of i \<noteq> k) tbl"

text \<open>The condition expressions the repository uses, evaluated on the item under the key.\<close>

datatype Condition =
  NoCondition
  | Attribute_not_exists_PK_and_SK
  | Attribute_not_exists_PK
  | Attribute_exists_PK
  | Version_equals int

fun holds :: "Condition \<Rightarrow> Item option \<Rightarrow> bool" where
  "holds NoCondition old = True"
| "holds Attribute_not_exists_PK_and_SK old = (old = None)"
| "holds Attribute_not_exists_PK old = (old = None)"
| "holds Attribute_exists_PK old = (old \<noteq> None)"
| "holds (Version_equals v) (Some (TxItem t)) = (Version t = v)"
| "holds (Version_equals v) (Some (Opaque p s)) = False"
| "holds (Version_equals v) None = False"

definition PutItem :: "Table \<Rightarrow> Item \<Rightarrow> Condition \<Rightarrow> error + Table" where
  "PutItem tbl i c =
     (if holds c (get_item tbl (key_of i)) then Inr (put_item tbl i)
      else Inl ConditionalCheckFailedException)"

definition DeleteItem :: "Table \<Rightarrow> string \<times> string \<Rightarrow> Condition \<Rightarrow> error + Table" where
  "DeleteItem tbl k c =
     (if holds c (get_item tbl k) then Inr (delete_item tbl k)
      else Inl ConditionalCheckFailedException)"

subsection \<open>Query\<close>

datatype Index = Primary | GSI1 | GSI2

record QueryInput =
  IndexName :: Index
  PartitionKey :: string
  SortKeyPrefix :: "string option"
  ScanIndexForward :: bool
  Limit :: "int option"
  ExclusiveStartKey :: "(string \<times> string) option"

definition begins_with :: "string \<Rightarrow> string \<Rightarrow> bool" where
  "begins_with s p = (take (length p) s = p)"

text \<open>The partition and sort key of an item in an index, if the item is in the index.\<close>

fun index_keys :: "Index \<Rightarrow> Item \<Rightarrow> (string \<times> string) option" where
  "index_keys Primary i = Some (key_of i)"
| "index_keys GSI1 (TxItem t) = Some (GSI1PK t, GSI1SK t)"
| "index_keys GSI2 (TxItem t) = Some (GSI2PK t, GSI2SK t)"
| "index_keys GSI1 (Opaque p s) = None"
| "index_keys GSI2 (Opaque p s) = None"

definition matches :: "QueryInput \<Rightarrow> Item \<Rightarrow> bool" where
  "matches q i =
     (case index_keys (IndexName q) i of
        None \<Rightarrow> False
      | Some (p, s) \<Rightarrow>
          p = PartitionKey q \<and>
          (case SortKeyPrefix q of None \<Rightarrow> True | Some pre \<Rightarrow> begins_with s pre))"

definition sort_key_of :: "Index \<Rightarrow> Item \<Rightarrow> string" where
  "sort_key_of ix i = (case index_keys ix i of None \<Rightarrow> [] | Some (p, s) \<Rightarrow> s)"

definition after_start :: "(string \<times> string) option \<Rightarrow> Item list \<Rightarrow> Item list" where
  "after_start k xs =
     (case k of None \<Rightarrow> xs | Some k' \<Rightarrow> drop 1 (dropWhile (\<lambda>i. key_of i \<noteq> k') xs))"

text \<open>
  \<open>Query\<close>: the matching items in sort-key order (byte order, reversed when
  \<open>ScanIndexForward\<close> is false), from the exclusive start key on, at most \<open>Limit\<close> of
  them, with the key of the last item read when the limit stopped the read. The store
  refuses a limit below 1.
\<close>

definition Query :: "Table \<Rightarrow> QueryInput \<Rightarrow> error + (Item list \<times> (string \<times> string) option)" where
  "Query tbl q =
     (let ordered = sort_key (sort_key_of (IndexName q)) (filter (matches q) tbl);
          directed = (if ScanIndexForward q then ordered else rev ordered);
          rest = after_start (ExclusiveStartKey q) directed
      in case Limit q of
           None \<Rightarrow> Inr (rest, None)
         | Some n \<Rightarrow>
             if n < 1 then Inl ValidationException
             else if int (length rest) < n then Inr (rest, None)
             else Inr (take (nat n) rest, Some (key_of (last (take (nat n) rest)))))"

section \<open>Repository (internal/repository)\<close>

definition FromDynamoDBItem :: "Item \<Rightarrow> Transaction option" where
  "FromDynamoDBItem i = (case i of TxItem t \<Rightarrow> Some t | Opaque p s \<Rightarrow> None)"

text \<open>The loop that unmarshals a page and skips the items that fail.\<close>

definition unmarshal_all :: "Item list \<Rightarrow> Transaction list" where
  "unmarshal_all items = List.map_filter FromDynamoDBItem items"

definition ToDynamoDBItem :: "Stdlib \<Rightarrow> Transaction \<Rightarrow> Item" where
  "ToDynamoDBItem L t = TxItem (GenerateKeys L t)"

definition CreateTransaction :: "Stdlib \<Rightarrow> Table \<Rightarrow> Transaction \<Rightarrow> error + Table" where
  "CreateTransaction L tbl t =
     (case PutItem tbl (ToDynamoDBItem L t) Attribute_not_exists_PK_and_SK of
        Inl e \<Rightarrow> Inl (Wrap ''failed to create transaction'' e)
      | Inr tbl' \<Rightarrow> Inr tbl')"

text \<open>\<open>int32(limit)\<close>: the conversion wraps.\<close>

definition int32 :: "int \<Rightarrow> int" where
  "int32 n = (n + 2147483648) mod 4294967296 - 2147483648"

text \<open>Go's \<open>int\<close> has 64 bits: an addition on it wraps.\<close>

definition int64 :: "int \<Rightarrow> int" where
  "int64 n = (n + 9223372036854775808) mod 18446744073709551616 - 9223372036854775808"

definition GetTransaction_query :: "string \<Rightarrow> QueryInput" where
  "GetTransaction_query userID =
     \<lparr>IndexName = Primary, PartitionKey = ''USER#'' @ userID, SortKeyPrefix = Some ''TX#'',
      ScanIndexForward = True, Limit = None, ExclusiveStartKey = None\<rparr>"

definition GetTransaction :: "Table \<Rightarrow> string \<Rightarrow> string \<Rightarrow> error + Transaction" where
  "GetTransaction tbl userID transactionID =
     (case Query tbl (GetTransaction_query userID) of
        Inl e \<Rightarrow> Inl (Wrap ''failed to query transactions'' e)
      | Inr (items, lek) \<Rightarrow>
          (case find (\<lambda>t. ID t = transactionID) (unmarshal_all items) of
             Some t \<Rightarrow> Inr t
           | None \<Rightarrow> Inl (Err ''transaction not found'')))"

definition GetTransactionsByUser ::
  "Table \<Rightarrow> string \<Rightarrow> int \<Rightarrow> (string \<times> string) option
     \<Rightarrow> error + (Transaction list \<times> (string \<times> string) option)" where
  "GetTransactionsByUser tbl userID limit lastKey =
     (case Query tbl
        \<lparr>IndexName = Primary, PartitionKey = ''USER#'' @ userID, SortKeyPrefix = Some ''TX#'',
         ScanIndexForward = False, Limit = Some (int32 limit), ExclusiveStartKey = lastKey\<rparr> of
        Inl e \<Rightarrow> Inl (Wrap ''failed to query transactions'' e)
      | Inr (items, lek) \<Rightarrow> Inr (unmarshal_all items, lek))"

definition GetTransactionsByMonth ::
  "Table \<Rightarrow> string \<Rightarrow> string \<Rightarrow> int \<Rightarrow> (string \<times> string) option
     \<Rightarrow> error + (Transaction list \<times> (string \<times> string) option)" where
  "GetTransactionsByMonth tbl userID month limit lastKey =
     (case Query tbl
        \<lparr>IndexName = GSI1, PartitionKey = ''MONTH#'' @ month @ ''#'' @ userID,
         SortKeyPrefix = None, ScanIndexForward = False, Limit = Some (int32 limit),
         ExclusiveStartKey = lastKey\<rparr> of
        Inl e \<Rightarrow> Inl (Wrap ''failed to query transactions by month'' e)
      | Inr (items, lek) \<Rightarrow> Inr (unmarshal_all items, lek))"

definition GetTransactionsByCategory ::
  "Stdlib \<Rightarrow> Table \<Rightarrow> string \<Rightarrow> string \<Rightarrow> int \<Rightarrow> (string \<times> string) option
     \<Rightarrow> error + (Transaction list \<times> (string \<times> string) option)" where
  "GetTransactionsByCategory L tbl userID category limit lastKey =
     (case Query tbl
        \<lparr>IndexName = GSI2, PartitionKey = ''CATEGORY#'' @ ToUpper L category @ ''#'' @ userID,
         SortKeyPrefix = None, ScanIndexForward = False, Limit = Some (int32 limit),
         ExclusiveStartKey = lastKey\<rparr> of
        Inl e \<Rightarrow> Inl (Wrap ''failed to query transactions by category'' e)
      | Inr (items, lek) \<Rightarrow> Inr (unmarshal_all items, lek))"

subsection \<open>\<open>GetMonthlyAnalytics\<close>\<close>

record MonthlyAnalytics =
  Month :: string
  TotalIncome :: real
  TotalExpense :: real
  Balance :: real
  CategoryBreakdown_map :: "string \<rightharpoonup> real"
  TransactionCount :: int

text \<open>One round of the loop over the fetched transactions.\<close>

definition analytics_step :: "MonthlyAnalytics \<Rightarrow> Transaction \<Rightarrow> MonthlyAnalytics" where
  "analytics_step a tx =
     (let a1 = a\<lparr>TransactionCount := TransactionCount a + 1\<rparr>;
          a2 = (if Type tx = TransactionTypeIncome
                then a1\<lparr>TotalIncome := TotalIncome a1 + Amount tx\<rparr>
                else a1\<lparr>TotalExpense := TotalExpense a1 + Amount tx\<rparr>)
      in a2\<lparr>CategoryBreakdown_map := (CategoryBreakdown_map a2)
             (Category tx \<mapsto>
                (case CategoryBreakdown_map a2 (Category tx) of None \<Rightarrow> 0 | Some v \<Rightarrow> v)
                  + Amount tx)\<rparr>)"

definition GetMonthlyAnalytics :: "Table \<Rightarrow> string \<Rightarrow> string \<Rightarrow> error + MonthlyAnalytics" where
  "GetMonthlyAnalytics tbl userID month =
     (case GetTransactionsByMonth tbl userID month 1000 None of
        Inl e \<Rightarrow> Inl (Wrap ''failed to get transactions for analytics'' e)
      | Inr (transactions, lek) \<Rightarrow>
          (let analytics = foldl analytics_step
                 \<lparr>Month = month, TotalIncome = 0, TotalExpense = 0, Balance = 0,
                  CategoryBreakdown_map = Map.empty, TransactionCount = 0\<rparr> transactions
           in Inr (analytics\<lparr>Balance := TotalIncome analytics - TotalExpense analytics\<rparr>)))"

subsection \<open>\<open>UpdateTransaction\<close> and \<open>DeleteTransaction\<close>\<close>

text \<open>
  The update talks to the store twice: it reads the current record and it writes the new
  one. \<open>UpdateTransaction_read\<close> is the part up to the item and the condition of the write,
  \<open>UpdateTransaction_write\<close> the conditional put and the translation of its error.
\<close>

definition UpdateTransaction_read ::
  "Stdlib \<Rightarrow> Time \<Rightarrow> Table \<Rightarrow> Transaction \<Rightarrow> error + (Item \<times> Condition)" where
  "UpdateTransaction_read L now tbl t =
     (case Validate t of
        Some e \<Rightarrow> Inl (Wrap ''validation failed'' e)
      | None \<Rightarrow>
          (case GetTransaction tbl (UserID t) (ID t) of
             Inl e \<Rightarrow> Inl (Wrap ''transaction not found'' e)
           | Inr existing \<Rightarrow>
               (let t1 = t\<lparr>CreatedAt := CreatedAt existing, UpdatedAt := now,
                           Version := int64 (Version existing + 1)\<rparr>;
                    t2 = GenerateKeys L t1
                in Inr (ToDynamoDBItem L t2, Version_equals (Version existing)))))"

definition UpdateTransaction_write :: "Table \<Rightarrow> Item \<times> Condition \<Rightarrow> error + Table" where
  "UpdateTransaction_write tbl w =
     (case PutItem tbl (fst w) (snd w) of
        Inl e \<Rightarrow>
          (if e = ConditionalCheckFailedException
           then Inl (Err ''transaction was modified by another process, please retry'')
           else Inl (Wrap ''failed to update transaction'' e))
      | Inr tbl' \<Rightarrow> Inr tbl')"

definition UpdateTransaction :: "Stdlib \<Rightarrow> Time \<Rightarrow> Table \<Rightarrow> Transaction \<Rightarrow> error + Table" where
  "UpdateTransaction L now tbl t =
     (case UpdateTransaction_read L now tbl t of
        Inl e \<Rightarrow> Inl e
      | Inr w \<Rightarrow> UpdateTransaction_write tbl w)"

definition DeleteTransaction :: "Table \<Rightarrow> string \<Rightarrow> string \<Rightarrow> error + Table" where
  "DeleteTransaction tbl userID transactionID =
     (case GetTransaction tbl userID transactionID of
        Inl e \<Rightarrow> Inl (Wrap ''transaction not found'' e)
      | Inr transaction \<Rightarrow>
          (case DeleteItem tbl (PK transaction, SK transaction) Attribute_exists_PK of
             Inl e \<Rightarrow> Inl (Wrap ''failed to delete transaction'' e)
           | Inr tbl' \<Rightarrow> Inr tbl'))"

section \<open>Transaction service (internal/services/transaction.go)\<close>

definition instant :: "Time \<Rightarrow> int" where
  "instant t = Unix t * 1000000000 + int (Nanos t)"

text \<open>
  \<open>ValidateTransaction\<close> works on the transaction in place: the result is the transaction
  as the caller sees it after a successful validation. \<open>None\<close> is the nil pointer.
\<close>

definition ValidateTransaction :: "string \<Rightarrow> Time \<Rightarrow> Transaction option \<Rightarrow> error + Transaction" where
  "ValidateTransaction uuid now transaction =
     (case transaction of
        None \<Rightarrow> Inl (Err ''transaction cannot be nil'')
      | Some t \<Rightarrow>
          (let t1 = (if ID t = [] then t\<lparr>ID := uuid\<rparr> else t)
           in if UserID t1 = [] then Inl (Err ''user ID is required'')
              else if Amount t1 = 0 then Inl (Err ''amount cannot be zero'')
              else if Category t1 = [] then Inl (Err ''category is required'')
              else if Type t1 \<noteq> TransactionTypeIncome \<and> Type t1 \<noteq> TransactionTypeExpense
                then Inl (Err ''type must be either income or expense'')
              else if Description t1 = [] then Inl (Err ''description is required'')
              else
                (let t2 = (if IsZero (Date t1) then t1\<lparr>Date := now\<rparr> else t1);
                     t3 = (if IsZero (CreatedAt t2) then t2\<lparr>CreatedAt := now\<rparr> else t2);
                     t4 = t3\<lparr>UpdatedAt := now\<rparr>;
                     t5 = (if Version t4 = 0 then t4\<lparr>Version := 1\<rparr> else t4)
                 in Inr t5)))"

definition Service_CreateTransaction ::
  "Stdlib \<Rightarrow> string \<Rightarrow> Time \<Rightarrow> Table \<Rightarrow> Transaction option \<Rightarrow> error + Table" where
  "Service_CreateTransaction L uuid now tbl transaction =
     (case ValidateTransaction uuid now transaction of
        Inl e \<Rightarrow> Inl (Wrap ''validation failed'' e)
      | Inr t \<Rightarrow> CreateTransaction L tbl (GenerateKeys L t))"

definition Service_UpdateTransaction ::
  "Stdlib \<Rightarrow> string \<Rightarrow> Time \<Rightarrow> Table \<Rightarrow> Transaction option \<Rightarrow> error + Table" where
  "Service_UpdateTransaction L uuid now tbl transaction =
     (case ValidateTransaction uuid now transaction of
        Inl e \<Rightarrow> Inl (Wrap ''validation failed'' e)
      | Inr t \<Rightarrow> UpdateTransaction L now tbl t)"

definition Service_GetTransaction :: "Table \<Rightarrow> string \<Rightarrow> string \<Rightarrow> error + Transaction" where
  "Service_GetTransaction tbl userID transactionID =
     (if userID = [] \<or> transactionID = [] then Inl (Err ''userID and transactionID are required'')
      else GetTransaction tbl userID transactionID)"

text \<open>
  The list operations. \<open>sort.Slice\<close> orders by \<open>Date\<close>, most recent first; among equal
  dates its order is unspecified, and the model keeps the order of the page.
\<close>

definition Service_GetTransactionsByUser :: "Table \<Rightarrow> string \<Rightarrow> int \<Rightarrow> error + Transaction list" where
  "Service_GetTransactionsByUser tbl userID limit =
     (if userID = [] then Inl (Err ''userID is required'')
      else
        (let limit' = (if limit \<le> 0 then 50 else limit)
         in case GetTransactionsByUser tbl userID limit' None of
              Inl e \<Rightarrow> Inl e
            | Inr (transactions, lek) \<Rightarrow>
                Inr (sort_key (\<lambda>t. - instant (Date t)) transactions)))"

definition Service_GetTransactionsByMonth ::
  "Table \<Rightarrow> string \<Rightarrow> string \<Rightarrow> int \<Rightarrow> error + Transaction list" where
  "Service_GetTransactionsByMonth tbl userID month limit =
     (if userID = [] \<or> month = [] then Inl (Err ''userID and month are required'')
      else
        (let limit' = (if limit \<le> 0 then 50 else limit)
         in case GetTransactionsByMonth tbl userID month limit' None of
              Inl e \<Rightarrow> Inl e
            | Inr (transactions, lek) \<Rightarrow> Inr transactions))"

definition Service_GetTransactionsByCategory ::
  "Stdlib \<Rightarrow> Table \<Rightarrow> string \<Rightarrow> string \<Rightarrow> int \<Rightarrow> error + Transaction list" where
  "Service_GetTransactionsByCategory L tbl userID category limit =
     (if userID = [] \<or> category = [] then Inl (Err ''userID and category are required'')
      else
        (let limit' = (if limit \<le> 0 then 50 else limit)
         in case GetTransactionsByCategory L tbl userID category limit' None of
              Inl e \<Rightarrow> Inl e
            | Inr (transactions, lek) \<Rightarrow> Inr transactions))"

section \<open>Aggregation layer (internal/services/analytics.go)\<close>

record CategoryBreakdown =
  Category_cb :: string
  Amount_cb :: real
  Percentage :: real
  Count :: int
  Color :: string

record FinancialSummary =
  TotalBalance :: real
  MonthlyIncome :: real
  MonthlyExpenses :: real
  AvailableMoney :: real
  SavingsRate :: real
  CategoryBreakdown :: "CategoryBreakdown list"
  MonthlyTrend :: real
  Timestamp :: Time

record CategoryOption =
  Label :: string
  Value :: string

text \<open>
  A quotient of two \<open>float64\<close> values. With divisor zero Go yields an infinity or NaN,
  which the real numbers do not have: the quotient is then \<open>None\<close>, and a function that
  takes it ends in \<open>Not_finite\<close>.
\<close>

definition fdiv :: "real \<Rightarrow> real \<Rightarrow> real option" where
  "fdiv x y = (if y = 0 then None else Some (x / y))"

text \<open>
  \<open>categoryMap\<close>, a Go map, is an association list with one entry per key. Go iterates a
  map in an unspecified order; the model iterates in the order of first insertion.
\<close>

type_synonym CategoryMap = "(string \<times> CategoryBreakdown) list"

text \<open>The update of \<open>categoryMap\<close> for one expense transaction.\<close>

definition add_expense :: "CategoryMap \<Rightarrow> Transaction \<Rightarrow> CategoryMap" where
  "add_expense categoryMap transaction =
     (let breakdown =
            (case map_of categoryMap (Category transaction) of
               None \<Rightarrow> \<lparr>Category_cb = Category transaction, Amount_cb = 0, Percentage = 0,
                         Count = 0, Color = []\<rparr>
             | Some b \<Rightarrow> b);
          breakdown' = breakdown\<lparr>Amount_cb := Amount_cb breakdown + - Amount transaction,
                                 Count := Count breakdown + 1\<rparr>
      in AList.update (Category transaction) breakdown' categoryMap)"

text \<open>The loop that fills in the percentages and turns the map into a slice.\<close>

fun percentages :: "real \<Rightarrow> CategoryMap \<Rightarrow> CategoryBreakdown list option" where
  "percentages totalExpenses [] = Some []"
| "percentages totalExpenses ((k, breakdown) # rest) =
     (case (if totalExpenses > 0
            then map_option (\<lambda>q. breakdown\<lparr>Percentage := q * 100\<rparr>)
                   (fdiv (Amount_cb breakdown) totalExpenses)
            else Some breakdown) of
        None \<Rightarrow> None
      | Some b \<Rightarrow> map_option ((#) b) (percentages totalExpenses rest))"

text \<open>One round of the loop of \<open>GetFinancialSummary\<close> over the fetched transactions.\<close>

definition summary_step ::
  "real \<times> real \<times> CategoryMap \<Rightarrow> Transaction \<Rightarrow> real \<times> real \<times> CategoryMap" where
  "summary_step acc transaction =
     (case acc of (totalIncome, totalExpenses, categoryMap) \<Rightarrow>
        if Type transaction = TransactionTypeIncome
        then (totalIncome + Amount transaction, totalExpenses, categoryMap)
        else if Type transaction = TransactionTypeExpense
        then (totalIncome, totalExpenses + - Amount transaction,
              add_expense categoryMap transaction)
        else acc)"

definition GetFinancialSummary :: "Time \<Rightarrow> Table \<Rightarrow> string \<Rightarrow> error + FinancialSummary" where
  "GetFinancialSummary now tbl userID =
     (if userID = [] then Inl (Err ''userID is required'')
      else case GetTransactionsByUser tbl userID 1000 None of
        Inl e \<Rightarrow> Inl (Wrap ''failed to get user transactions'' e)
      | Inr (transactions, lek) \<Rightarrow>
          (case foldl summary_step (0, 0, []) transactions of
             (totalIncome, totalExpenses, categoryMap) \<Rightarrow>
               (let totalBalance = totalIncome - totalExpenses
                in case (if totalIncome > 0
                         then map_option (\<lambda>q. q * 100) (fdiv totalBalance totalIncome)
                         else Some 0) of
                     None \<Rightarrow> Inl Not_finite
                   | Some savingsRate \<Rightarrow>
                       (case percentages totalExpenses categoryMap of
                          None \<Rightarrow> Inl Not_finite
                        | Some categoryBreakdown \<Rightarrow>
                            Inr \<lparr>TotalBalance = totalBalance,
                                 MonthlyIncome = totalIncome,
                                 MonthlyExpenses = - totalExpenses,
                                 AvailableMoney = totalBalance,
                                 SavingsRate = savingsRate,
                                 CategoryBreakdown = sort_key Category_cb categoryBreakdown,
                                 MonthlyTrend = 0,
                                 Timestamp = now\<rparr>))))"

text \<open>One round of the loop of \<open>GetCategoryBreakdown\<close>.\<close>

definition breakdown_step :: "real \<times> CategoryMap \<Rightarrow> Transaction \<Rightarrow> real \<times> CategoryMap" where
  "breakdown_step acc transaction =
     (case acc of (totalExpenses, categoryMap) \<Rightarrow>
        if Type transaction = TransactionTypeExpense
        then (totalExpenses + - Amount transaction, add_expense categoryMap transaction)
        else acc)"

definition GetCategoryBreakdown ::
  "Stdlib \<Rightarrow> Time \<Rightarrow> Table \<Rightarrow> string \<Rightarrow> string \<Rightarrow> error + CategoryBreakdown list" where
  "GetCategoryBreakdown L now tbl userID period =
     (if userID = [] then Inl (Err ''userID is required'')
      else case GetTransactionsByMonth tbl userID (Format_2006_01 L now) 1000 None of
        Inl e \<Rightarrow> Inl (Wrap ''failed to get transactions for period'' e)
      | Inr (transactions, lek) \<Rightarrow>
          (case foldl breakdown_step (0, []) transactions of
             (totalExpenses, categoryMap) \<Rightarrow>
               (case percentages totalExpenses categoryMap of
                  None \<Rightarrow> Inl Not_finite
                | Some result \<Rightarrow> Inr result)))"

subsection \<open>\<open>GetCategoryOptions\<close>\<close>

text \<open>
  \<open>string(category[0])\<close> converts a byte to the UTF-8 encoding of the code point of the
  same number: one byte below 128, two bytes from 128 on.
\<close>

definition string_of_byte :: "char \<Rightarrow> string" where
  "string_of_byte b =
     (let n = (of_char b :: nat)
      in if n < 128 then [b] else [char_of (192 + n div 64), char_of (128 + n mod 64)])"

text \<open>
  The loop over \<open>categorySet\<close>. Indexing the first byte of an empty string is a run-time
  panic, which ends the call whatever the order of the iteration.
\<close>

fun category_options :: "Stdlib \<Rightarrow> string list \<Rightarrow> error + CategoryOption list" where
  "category_options L [] = Inr []"
| "category_options L (category # rest) =
     (case category of
        [] \<Rightarrow> Inl (Panic ''runtime error: index out of range [0] with length 0'')
      | b # bs \<Rightarrow>
          (case category_options L rest of
             Inl e \<Rightarrow> Inl e
           | Inr options \<Rightarrow>
               Inr (\<lparr>Label = ToUpper L (string_of_byte b) @ bs, Value = category\<rparr> # options)))"

definition GetCategoryOptions :: "Stdlib \<Rightarrow> Table \<Rightarrow> string \<Rightarrow> error + CategoryOption list" where
  "GetCategoryOptions L tbl userID =
     (if userID = [] then Inl (Err ''userID is required'')
      else case GetTransactionsByUser tbl userID 1000 None of
        Inl e \<Rightarrow> Inl (Wrap ''failed to get user transactions'' e)
      | Inr (transactions, lek) \<Rightarrow>
          category_options L (remdups (map Category transactions)))"

section \<open>Batch writes (\<open>BatchCreateTransactions\<close>)\<close>

text \<open>
  \<open>BatchWriteItem\<close> may fail as a whole and may leave any part of a request
  unprocessed; which, is the store's choice. A \<open>Store_Behaviour\<close> fixes that choice for
  the n-th call of a run. The state of a run is the table together with a record of what
  the run did: the request of every \<open>BatchWriteItem\<close> call, in order, the durations of
  \<open>time.Sleep\<close> in milliseconds, and the number of times the clock has been read. A write
  request of the batch is a put of an item and nothing else: \<open>types.PutRequest\<close> has no
  condition.
\<close>

record Batch_State =
  table :: Table
  calls :: "Item list list"
  slept :: "nat list"
  clock_reads :: nat

record Store_Behaviour =
  fails :: "nat \<Rightarrow> bool"
  leaves :: "nat \<Rightarrow> Item \<Rightarrow> bool"

definition BatchWriteItem ::
  "Store_Behaviour \<Rightarrow> Batch_State \<Rightarrow> Item list \<Rightarrow> (error + Item list) \<times> Batch_State" where
  "BatchWriteItem B st requests =
     (let n = length (calls st);
          st1 = st\<lparr>calls := calls st @ [requests]\<rparr>
      in if fails B n then (Inl ProvisionedThroughputExceededException, st1)
         else (Inr (filter (leaves B n) requests),
               st1\<lparr>table := foldl put_item (table st1)
                                (filter (\<lambda>i. \<not> leaves B n i) requests)\<rparr>))"

text \<open>
  The items the store has processed of the requests \<open>cs\<close>, the first of which is its
  \<open>n\<close>-th call.
\<close>

fun processed :: "Store_Behaviour \<Rightarrow> nat \<Rightarrow> Item list list \<Rightarrow> Item list" where
  "processed B n [] = []"
| "processed B n (requests # cs) =
     (if fails B n then [] else filter (\<lambda>i. \<not> leaves B n i) requests) @ processed B (Suc n) cs"

definition maxRetries :: nat where
  "maxRetries = 3"

function retry_loop ::
  "Store_Behaviour \<Rightarrow> nat \<Rightarrow> Batch_State \<Rightarrow> Item list \<Rightarrow> error option \<times> Batch_State" where
  "retry_loop B retry st input =
     (if retry < maxRetries then
        (case BatchWriteItem B st input of
           (Inl e, st1) \<Rightarrow> (Some (Wrap ''failed to batch write items'' e), st1)
         | (Inr unprocessed, st1) \<Rightarrow>
             if unprocessed = [] then (None, st1)
             else if retry = maxRetries - 1
               then (Some (Err ''failed to process all items after 3 retries''), st1)
             else retry_loop B (retry + 1)
                    (st1\<lparr>slept := slept st1 @ [(retry + 1) * 100]\<rparr>) unprocessed)
      else (None, st))"
  by pat_completeness auto
termination
  by (relation "measure (\<lambda>(B, retry, st, input). maxRetries - retry)") auto

declare retry_loop.simps [simp del]

text \<open>
  The loop that builds the write requests of a chunk. Every transaction is a copy: its keys
  are generated and its two timestamps are two readings of the clock, \<open>clock k\<close> being the
  k-th reading of the run.
\<close>

fun write_requests :: "Stdlib \<Rightarrow> (nat \<Rightarrow> Time) \<Rightarrow> nat \<Rightarrow> Transaction list \<Rightarrow> Item list" where
  "write_requests L clock k [] = []"
| "write_requests L clock k (tx # transactions) =
     ToDynamoDBItem L ((GenerateKeys L tx)\<lparr>CreatedAt := clock k, UpdatedAt := clock (k + 1)\<rparr>)
       # write_requests L clock (k + 2) transactions"

definition batchWriteTransactions ::
  "Stdlib \<Rightarrow> (nat \<Rightarrow> Time) \<Rightarrow> Store_Behaviour \<Rightarrow> Batch_State \<Rightarrow> Transaction list
     \<Rightarrow> error option \<times> Batch_State" where
  "batchWriteTransactions L clock B st transactions =
     retry_loop B 0 (st\<lparr>clock_reads := clock_reads st + 2 * length transactions\<rparr>)
       (write_requests L clock (clock_reads st) transactions)"

definition batchSize :: nat where
  "batchSize = 25"

text \<open>
  The index \<open>i\<close> of the loop stays below the length of the slice plus 25, far from the
  largest \<open>int\<close>: it is a natural number here.
\<close>

function batch_loop ::
  "Stdlib \<Rightarrow> (nat \<Rightarrow> Time) \<Rightarrow> Store_Behaviour \<Rightarrow> Transaction list \<Rightarrow> nat \<Rightarrow> Batch_State
     \<Rightarrow> error option \<times> Batch_State" where
  "batch_loop L clock B transactions i st =
     (if i < length transactions then
        (let end' = (if i + batchSize > length transactions then length transactions
                     else i + batchSize);
             batch = take (end' - i) (drop i transactions)
         in case batchWriteTransactions L clock B st batch of
              (Some e, st1) \<Rightarrow>
                (Some (Wrap (''failed to write batch '' @ show_nat i @ ''-'' @ show_nat end') e),
                 st1)
            | (None, st1) \<Rightarrow> batch_loop L clock B transactions (i + batchSize) st1)
      else (None, st))"
  by pat_completeness auto
termination
  by (relation "measure (\<lambda>(L, clock, B, transactions, i, st). length transactions - i)")
    (auto simp: batchSize_def)

declare batch_loop.simps [simp del]

definition BatchCreateTransactions ::
  "Stdlib \<Rightarrow> (nat \<Rightarrow> Time) \<Rightarrow> Store_Behaviour \<Rightarrow> Batch_State \<Rightarrow> Transaction list
     \<Rightarrow> error option \<times> Batch_State" where
  "BatchCreateTransactions L clock B st transactions = batch_loop L clock B transactions 0 st"

text \<open>
  The words of the specification: the consecutive chunks of at most \<open>n\<close> items of a list,
  and their submission in order, which stops at the first chunk that fails.
\<close>

function chunks :: "nat \<Rightarrow> 'a list \<Rightarrow> 'a list list" where
  "chunks n xs = (if n = 0 \<or> xs = [] then [] else take n xs # chunks n (drop n xs))"
  by pat_completeness auto
termination
  by (relation "measure (\<lambda>(n, xs). length xs)") auto

declare chunks.simps [simp del]

fun submit_chunks ::
  "Stdlib \<Rightarrow> (nat \<Rightarrow> Time) \<Rightarrow> Store_Behaviour \<Rightarrow> nat \<Rightarrow> Batch_State \<Rightarrow> Transaction list list
     \<Rightarrow> error option \<times> Batch_State" where
  "submit_chunks L clock B i st [] = (None, st)"
| "submit_chunks L clock B i st (c # cs) =
     (case batchWriteTransactions L clock B st c of
        (Some e, st1) \<Rightarrow>
          (Some (Wrap (''failed to write batch '' @ show_nat i @ ''-'' @ show_nat (i + length c)) e),
           st1)
      | (None, st1) \<Rightarrow> submit_chunks L clock B (i + length c) st1 cs)"

section \<open>Example data\<close>

text \<open>
  A standard library for the examples: \<open>ToUpper\<close> on ASCII letters, and the month of an
  instant in the proleptic Gregorian calendar at the offset of the time.
\<close>

definition ascii_upper :: "char \<Rightarrow> char" where
  "ascii_upper c =
     (case map_of (zip ''abcdefghijklmnopqrstuvwxyz'' ''ABCDEFGHIJKLMNOPQRSTUVWXYZ'') c of
        None \<Rightarrow> c | Some u \<Rightarrow> u)"

definition pad :: "nat \<Rightarrow> string \<Rightarrow> string" where
  "pad w s = replicate (w - length s) CHR ''0'' @ s"

definition civil_year_month :: "int \<Rightarrow> int \<times> int" where
  "civil_year_month days =
     (let z = days + 719468;
          era = z div 146097;
          doe = z - era * 146097;
          yoe = (doe - doe div 1460 + doe div 36524 - doe div 146096) div 365;
          doy = doe - (365 * yoe + yoe div 4 - yoe div 100);
          mp = (5 * doy + 2) div 153;
          m = (if mp < 10 then mp + 3 else mp - 9);
          y = yoe + era * 400 + (if m \<le> 2 then 1 else 0)
      in (y, m))"

definition format_month :: "Time \<Rightarrow> string" where
  "format_month t =
     (case civil_year_month ((Unix t + Zone t) div 86400) of
        (y, m) \<Rightarrow> pad 4 (show_int y) @ ''-'' @ pad 2 (show_int m))"

definition stdlib :: Stdlib where
  "stdlib = \<lparr>ToUpper = map ascii_upper, Format_2006_01 = format_month\<rparr>"

definition utc :: "int \<Rightarrow> Time" where
  "utc s = \<lparr>Unix = s, Nanos = 0, Zone = 0\<rparr>"

text \<open>A transaction as a caller hands it over: no keys, no timestamps, no version.\<close>

definition new_tx :: "string \<Rightarrow> string \<Rightarrow> int \<Rightarrow> real \<Rightarrow> string \<Rightarrow> string \<Rightarrow> Transaction" where
  "new_tx userID txID date amount category type =
     \<lparr>ID = txID, Date = utc date, Amount = amount, Description = ''example'',
      Category = category, Type = type, UserID = userID,
      PK = [], SK = [], GSI1PK = [], GSI1SK = [], GSI2PK = [], GSI2SK = [],
      CreatedAt = zeroTime, UpdatedAt = zeroTime, Version = 0\<rparr>"

text \<open>
  The keys the seeding tool (cmd/seed/data-ingestion) writes: the sort keys are
  \<open>TX#{date}#{id}\<close> with the date as the text of the input row.
\<close>

definition seed_keys :: "string \<Rightarrow> Transaction \<Rightarrow> Transaction" where
  "seed_keys rawDate t = t
     \<lparr>PK := ''USER#'' @ UserID t,
      SK := ''TX#'' @ rawDate @ ''#'' @ ID t,
      GSI1PK := ''MONTH#'' @ take 7 rawDate @ ''#'' @ UserID t,
      GSI1SK := ''TX#'' @ rawDate @ ''#'' @ ID t,
      GSI2PK := ''CATEGORY#'' @ map ascii_upper (Category t) @ ''#'' @ UserID t,
      GSI2SK := ''TX#'' @ rawDate @ ''#'' @ ID t\<rparr>"

text \<open>2024-01-15, 2024-01-20 and 2024-02-01, midnight UTC.\<close>

definition tx_food_jan :: Transaction where
  "tx_food_jan = new_tx ''u1'' ''t1'' 1705276800 (- 50) ''food'' ''expense''"

definition tx_salary_jan :: Transaction where
  "tx_salary_jan = new_tx ''u1'' ''t2'' 1705708800 2000 ''salary'' ''income''"

definition tx_food_feb :: Transaction where
  "tx_food_feb = new_tx ''u1'' ''t3'' 1706745600 (- 30) ''food'' ''expense''"

definition seeded_table :: Table where
  "seeded_table =
     [TxItem (seed_keys ''2024-01-15'' tx_food_jan),
      TxItem (seed_keys ''2024-01-20'' tx_salary_jan),
      TxItem (seed_keys ''2024-02-01'' tx_food_feb)]"

text \<open>
  A table in which every transaction item carries the sort key \<open>GenerateKeys\<close> gives it.
\<close>

definition generated_table :: "Stdlib \<Rightarrow> Table \<Rightarrow> bool" where
  "generated_table L tbl = list_all (\<lambda>i. case i of TxItem t \<Rightarrow> SK t = SK (GenerateKeys L t)
                                              | Opaque p s \<Rightarrow> True) tbl"


text \<open>The three example transactions as \<open>CreateTransaction\<close> writes them.\<close>

definition created_table :: Table where
  "created_table =
     [TxItem (GenerateKeys stdlib tx_food_jan),
      TxItem (GenerateKeys stdlib tx_salary_jan),
      TxItem (GenerateKeys stdlib tx_food_feb)]"

text \<open>A transaction that arrives without a date, and one without a category.\<close>

definition tx_no_date :: Transaction where
  "tx_no_date = tx_food_jan\<lparr>Date := zeroTime\<rparr>"

definition tx_no_category :: Transaction where
  "tx_no_category = new_tx ''u1'' ''t4'' 1706745600 (- 5) [] ''expense''"

definition seeded_table_no_category :: Table where
  "seeded_table_no_category = seeded_table @ [TxItem (seed_keys ''2024-02-01'' tx_no_category)]"

text \<open>
  Two properties of a \<open>categoryMap\<close> that the loops keep: the sum of its amounts, and
  that no percentage has been set.
\<close>

definition total_of :: "CategoryMap \<Rightarrow> real" where
  "total_of m = (\<Sum>p\<leftarrow>m. Amount_cb (snd p))"

definition unset :: "CategoryMap \<Rightarrow> bool" where
  "unset m = list_all (\<lambda>p. Percentage (snd p) = 0) m"


text \<open>
  Two expenses of another user whose amounts cancel: the second has a positive amount.
\<close>

definition cancelling_table :: Table where
  "cancelling_table =
     [TxItem (seed_keys ''2024-01-15'' (new_tx ''u2'' ''t5'' 1705276800 (- 30) ''food'' ''expense'')),
      TxItem (seed_keys ''2024-01-20'' (new_tx ''u2'' ''t6'' 1705708800 30 ''rent'' ''expense''))]"

text \<open>Fifty-one seeded transactions of one user.\<close>

definition table51 :: Table where
  "table51 =
     map (\<lambda>n. TxItem (seed_keys ''2024-01-15''
                 (new_tx ''u1'' (show_nat n) 1705276800 (- 1) ''food'' ''expense'')))
       [0..<51]"

text \<open>
  The first example transaction as the service's create path stores it (version 1), and a
  table that holds one transaction under both kinds of sort key: the seeded item, created
  at 2023-11-14, and an item under the key that \<open>GenerateKeys\<close> gives it.
\<close>

definition tx_food_jan_v1 :: Transaction where
  "tx_food_jan_v1 = tx_food_jan
     \<lparr>CreatedAt := utc 1705276800, UpdatedAt := utc 1705276800, Version := 1\<rparr>"


section \<open>The queries the service layer issues\<close>

text \<open>
  To speak about what an operation asks of the store, the operations of the service layer
  that query it are written here over an arbitrary store client, a function that answers
  every query, and return, next to their result, the queries they have issued, in order.
  Every store call of these operations goes through one of the five queries of the
  repository. In \<open>GetFinancialSummaryWithBudgets\<close>, \<open>GetFinancialInsights\<close>,
  \<open>GetBudgetUtilization\<close> and \<open>BuildFinancialContext\<close> the computation that follows the
  reads, which calls nothing of the repository and returns no error, is the parameter
  \<open>post\<close>; \<open>parse\<close> is \<open>time.Parse("2006-01", month)\<close> and \<open>unmarshal\<close> the SDK's
  \<open>UnmarshalMap\<close> at the type of a budget.
\<close>

type_synonym Answer = "error + Item list \<times> (string \<times> string) option"

type_synonym Client = "QueryInput \<Rightarrow> Answer"

definition issue :: "Client \<Rightarrow> QueryInput \<Rightarrow> Answer \<times> QueryInput list" where
  "issue c q = (c q, [q])"

subsection \<open>The queries of the repository\<close>

definition GetTransactionsByUser_query ::
  "string \<Rightarrow> int \<Rightarrow> (string \<times> string) option \<Rightarrow> QueryInput" where
  "GetTransactionsByUser_query userID limit lastKey =
     \<lparr>IndexName = Primary, PartitionKey = ''USER#'' @ userID, SortKeyPrefix = Some ''TX#'',
      ScanIndexForward = False, Limit = Some (int32 limit), ExclusiveStartKey = lastKey\<rparr>"

definition GetTransactionsByMonth_query ::
  "string \<Rightarrow> string \<Rightarrow> int \<Rightarrow> (string \<times> string) option \<Rightarrow> QueryInput" where
  "GetTransactionsByMonth_query userID month limit lastKey =
     \<lparr>IndexName = GSI1, PartitionKey = ''MONTH#'' @ month @ ''#'' @ userID,
      SortKeyPrefix = None, ScanIndexForward = False, Limit = Some (int32 limit),
      ExclusiveStartKey = lastKey\<rparr>"

definition GetTransactionsByCategory_query ::
  "Stdlib \<Rightarrow> string \<Rightarrow> string \<Rightarrow> int \<Rightarrow> (string \<times> string) option \<Rightarrow> QueryInput" where
  "GetTransactionsByCategory_query L userID category limit lastKey =
     \<lparr>IndexName = GSI2, PartitionKey = ''CATEGORY#'' @ ToUpper L category @ ''#'' @ userID,
      SortKeyPrefix = None, ScanIndexForward = False, Limit = Some (int32 limit),
      ExclusiveStartKey = lastKey\<rparr>"

definition GetBudgetsByMonth_query :: "string \<Rightarrow> string \<Rightarrow> QueryInput" where
  "GetBudgetsByMonth_query userID month =
     \<lparr>IndexName = Primary, PartitionKey = ''USER#'' @ userID,
      SortKeyPrefix = Some (''BUDGET#'' @ month @ ''#''),
      ScanIndexForward = True, Limit = None, ExclusiveStartKey = None\<rparr>"

definition GetTransactionsByUser_on ::
  "Client \<Rightarrow> string \<Rightarrow> int \<Rightarrow> (string \<times> string) option
     \<Rightarrow> (error + Transaction list \<times> (string \<times> string) option) \<times> QueryInput list" where
  "GetTransactionsByUser_on c userID limit lastKey =
     (case issue c (GetTransactionsByUser_query userID limit lastKey) of
        (Inl e, qs) \<Rightarrow> (Inl (Wrap ''failed to query transactions'' e), qs)
      | (Inr (items, lek), qs) \<Rightarrow> (Inr (unmarshal_all items, lek), qs))"

definition GetTransactionsByMonth_on ::
  "Client \<Rightarrow> string \<Rightarrow> string \<Rightarrow> int \<Rightarrow> (string \<times> string) option
     \<Rightarrow> (error + Transaction list \<times> (string \<times> string) option) \<times> QueryInput list" where
  "GetTransactionsByMonth_on c userID month limit lastKey =
     (case issue c (GetTransactionsByMonth_query userID month limit lastKey) of
        (Inl e, qs) \<Rightarrow> (Inl (Wrap ''failed to query transactions by month'' e), qs)
      | (Inr (items, lek), qs) \<Rightarrow> (Inr (unmarshal_all items, lek), qs))"

definition GetTransactionsByCategory_on ::
  "Stdlib \<Rightarrow> Client \<Rightarrow> string \<Rightarrow> string \<Rightarrow> int \<Rightarrow> (string \<times> string) option
     \<Rightarrow> (error + Transaction list \<times> (string \<times> string) option) \<times> QueryInput list" where
  "GetTransactionsByCategory_on L c userID category limit lastKey =
     (case issue c (GetTransactionsByCategory_query L userID category limit lastKey) of
        (Inl e, qs) \<Rightarrow> (Inl (Wrap ''failed to query transactions by category'' e), qs)
      | (Inr (items, lek), qs) \<Rightarrow> (Inr (unmarshal_all items, lek), qs))"

definition GetTransaction_on ::
  "Client \<Rightarrow> string \<Rightarrow> string \<Rightarrow> (error + Transaction) \<times> QueryInput list" where
  "GetTransaction_on c userID transactionID =
     (case issue c (GetTransaction_query userID) of
        (Inl e, qs) \<Rightarrow> (Inl (Wrap ''failed to query transactions'' e), qs)
      | (Inr (items, lek), qs) \<Rightarrow>
          (case find (\<lambda>t. ID t = transactionID) (unmarshal_all items) of
             Some t \<Rightarrow> (Inr t, qs)
           | None \<Rightarrow> (Inl (Err ''transaction not found''), qs)))"

definition GetBudgetsByMonth_on ::
  "Client \<Rightarrow> (Item \<Rightarrow> 'b option) \<Rightarrow> string \<Rightarrow> string \<Rightarrow> (error + 'b list) \<times> QueryInput list" where
  "GetBudgetsByMonth_on c unmarshal userID month =
     (case issue c (GetBudgetsByMonth_query userID month) of
        (Inl e, qs) \<Rightarrow> (Inl (Wrap ''failed to query budgets'' e), qs)
      | (Inr (items, lek), qs) \<Rightarrow> (Inr (List.map_filter unmarshal items), qs))"

definition GetMonthlyAnalytics_on ::
  "Client \<Rightarrow> string \<Rightarrow> string \<Rightarrow> (error + MonthlyAnalytics) \<times> QueryInput list" where
  "GetMonthlyAnalytics_on c userID month =
     (case GetTransactionsByMonth_on c userID month 1000 None of
        (Inl e, qs) \<Rightarrow> (Inl (Wrap ''failed to get transactions for analytics'' e), qs)
      | (Inr (transactions, lek), qs) \<Rightarrow>
          (let analytics = foldl analytics_step
                 \<lparr>Month = month, TotalIncome = 0, TotalExpense = 0, Balance = 0,
                  CategoryBreakdown_map = Map.empty, TransactionCount = 0\<rparr> transactions
           in (Inr (analytics\<lparr>Balance := TotalIncome analytics - TotalExpense analytics\<rparr>), qs)))"

subsection \<open>Transaction service\<close>

definition Service_GetTransactionsByUser_on ::
  "Client \<Rightarrow> string \<Rightarrow> int \<Rightarrow> (error + Transaction list) \<times> QueryInput list" where
  "Service_GetTransactionsByUser_on c userID limit =
     (if userID = [] then (Inl (Err ''userID is required''), [])
      else
        (let limit' = (if limit \<le> 0 then 50 else limit)
         in case GetTransactionsByUser_on c userID limit' None of
              (Inl e, qs) \<Rightarrow> (Inl e, qs)
            | (Inr (transactions, lek), qs) \<Rightarrow>
                (Inr (sort_key (\<lambda>t. - instant (Date t)) transactions), qs)))"

definition Service_GetTransactionsByMonth_on ::
  "Client \<Rightarrow> string \<Rightarrow> string \<Rightarrow> int \<Rightarrow> (error + Transaction list) \<times> QueryInput list" where
  "Service_GetTransactionsByMonth_on c userID month limit =
     (if userID = [] \<or> month = [] then (Inl (Err ''userID and month are required''), [])
      else
        (let limit' = (if limit \<le> 0 then 50 else limit)
         in case GetTransactionsByMonth_on c userID month limit' None of
              (Inl e, qs) \<Rightarrow> (Inl e, qs)
            | (Inr (transactions, lek), qs) \<Rightarrow> (Inr transactions, qs)))"

definition Service_GetTransactionsByCategory_on ::
  "Stdlib \<Rightarrow> Client \<Rightarrow> string \<Rightarrow> string \<Rightarrow> int \<Rightarrow> (error + Transaction list) \<times> QueryInput list" where
  "Service_GetTransactionsByCategory_on L c userID category limit =
     (if userID = [] \<or> category = [] then (Inl (Err ''userID and category are required''), [])
      else
        (let limit' = (if limit \<le> 0 then 50 else limit)
         in case GetTransactionsByCategory_on L c userID category limit' None of
              (Inl e, qs) \<Rightarrow> (Inl e, qs)
            | (Inr (transactions, lek), qs) \<Rightarrow> (Inr transactions, qs)))"

definition Service_GetTransaction_on ::
  "Client \<Rightarrow> string \<Rightarrow> string \<Rightarrow> (error + Transaction) \<times> QueryInput list" where
  "Service_GetTransaction_on c userID transactionID =
     (if userID = [] \<or> transactionID = []
      then (Inl (Err ''userID and transactionID are required''), [])
      else GetTransaction_on c userID transactionID)"

subsection \<open>Budget service\<close>

definition Budget_GetBudgetsByMonth_on ::
  "Client \<Rightarrow> (string \<Rightarrow> error + Time) \<Rightarrow> (Item \<Rightarrow> 'b option) \<Rightarrow> string \<Rightarrow> string
     \<Rightarrow> (error + 'b list) \<times> QueryInput list" where
  "Budget_GetBudgetsByMonth_on c parse unmarshal userID month =
     (case parse month of
        Inl e \<Rightarrow> (Inl (Wrap ''invalid month format, expected YYYY-MM'' e), [])
      | Inr t \<Rightarrow> GetBudgetsByMonth_on c unmarshal userID month)"

text \<open>
  The loop of \<open>GetBudgetUtilization\<close> that reads the transactions of the user page by page.
  It ends when the store returns no key to continue from; a store that always returns one
  keeps it running, and then there is no result.
\<close>

partial_function (option) read_all_pages ::
  "Client \<Rightarrow> string \<Rightarrow> (string \<times> string) option \<Rightarrow> Transaction list \<Rightarrow> QueryInput list
     \<Rightarrow> ((error + Transaction list) \<times> QueryInput list) option" where
  "read_all_pages c userID lastKey allTransactions issued =
     (case GetTransactionsByUser_on c userID 1000 lastKey of
        (Inl e, qs) \<Rightarrow> Some (Inl (Wrap ''failed to get transactions'' e), issued @ qs)
      | (Inr (transactions, nextKey), qs) \<Rightarrow>
          (case nextKey of
             None \<Rightarrow> Some (Inr (allTransactions @ transactions), issued @ qs)
           | Some k \<Rightarrow>
               read_all_pages c userID (Some k) (allTransactions @ transactions) (issued @ qs)))"

definition GetBudgetUtilization_on ::
  "Client \<Rightarrow> (string \<Rightarrow> error + Time) \<Rightarrow> (Item \<Rightarrow> 'b option)
     \<Rightarrow> ('b list \<Rightarrow> Time \<Rightarrow> Transaction list \<Rightarrow> 'r) \<Rightarrow> string \<Rightarrow> string
     \<Rightarrow> ((error + 'r) \<times> QueryInput list) option" where
  "GetBudgetUtilization_on c parse unmarshal post userID month =
     (case Budget_GetBudgetsByMonth_on c parse unmarshal userID month of
        (Inl e, qs) \<Rightarrow> Some (Inl (Wrap ''failed to get budgets'' e), qs)
      | (Inr budgets, qs) \<Rightarrow>
          (case parse month of
             Inl e \<Rightarrow> Some (Inl (Wrap ''invalid month format'' e), qs)
           | Inr t \<Rightarrow>
               (case read_all_pages c userID None [] qs of
                  None \<Rightarrow> None
                | Some (Inl e, qs') \<Rightarrow> Some (Inl e, qs')
                | Some (Inr allTransactions, qs') \<Rightarrow>
                    Some (Inr (post budgets t allTransactions), qs'))))"

subsection \<open>Analytics service and AI service\<close>

definition Analytics_GetMonthlyAnalytics_on ::
  "Client \<Rightarrow> string \<Rightarrow> string \<Rightarrow> (error + MonthlyAnalytics) \<times> QueryInput list" where
  "Analytics_GetMonthlyAnalytics_on c userID month =
     (if userID = [] \<or> month = [] then (Inl (Err ''userID and month are required''), [])
      else case GetMonthlyAnalytics_on c userID month of
        (Inl e, qs) \<Rightarrow> (Inl (Wrap ''failed to get monthly analytics'' e), qs)
      | (Inr analytics, qs) \<Rightarrow> (Inr analytics, qs))"

definition GetFinancialInsights_on ::
  "Client \<Rightarrow> (MonthlyAnalytics \<Rightarrow> 'r) \<Rightarrow> string \<Rightarrow> string
     \<Rightarrow> (error + 'r) \<times> QueryInput list" where
  "GetFinancialInsights_on c post userID month =
     (case Analytics_GetMonthlyAnalytics_on c userID month of
        (Inl e, qs) \<Rightarrow> (Inl e, qs)
      | (Inr analytics, qs) \<Rightarrow> (Inr (post analytics), qs))"

definition GetFinancialSummary_on ::
  "Time \<Rightarrow> Client \<Rightarrow> string \<Rightarrow> (error + FinancialSummary) \<times> QueryInput list" where
  "GetFinancialSummary_on now c userID =
     (if userID = [] then (Inl (Err ''userID is required''), [])
      else case GetTransactionsByUser_on c userID 1000 None of
        (Inl e, qs) \<Rightarrow> (Inl (Wrap ''failed to get user transactions'' e), qs)
      | (Inr (transactions, lek), qs) \<Rightarrow>
          (case foldl summary_step (0, 0, []) transactions of
             (totalIncome, totalExpenses, categoryMap) \<Rightarrow>
               (let totalBalance = totalIncome - totalExpenses
                in case (if totalIncome > 0
                         then map_option (\<lambda>q. q * 100) (fdiv totalBalance totalIncome)
                         else Some 0) of
                     None \<Rightarrow> (Inl Not_finite, qs)
                   | Some savingsRate \<Rightarrow>
                       (case percentages totalExpenses categoryMap of
                          None \<Rightarrow> (Inl Not_finite, qs)
                        | Some categoryBreakdown \<Rightarrow>
                            (Inr \<lparr>TotalBalance = totalBalance,
                                  MonthlyIncome = totalIncome,
                                  MonthlyExpenses = - totalExpenses,
                                  AvailableMoney = totalBalance,
                                  SavingsRate = savingsRate,
                                  CategoryBreakdown = sort_key Category_cb categoryBreakdown,
                                  MonthlyTrend = 0,
                                  Timestamp = now\<rparr>, qs)))))"

definition GetFinancialSummaryWithBudgets_on ::
  "Client \<Rightarrow> (string \<Rightarrow> error + Time) \<Rightarrow> (Item \<Rightarrow> 'b option)
     \<Rightarrow> (Transaction list \<Rightarrow> 'b list \<Rightarrow> 'r) \<Rightarrow> string \<Rightarrow> string
     \<Rightarrow> (error + 'r) \<times> QueryInput list" where
  "GetFinancialSummaryWithBudgets_on c parse unmarshal post userID month =
     (if userID = [] \<or> month = [] then (Inl (Err ''userID and month are required''), [])
      else case GetTransactionsByMonth_on c userID month 1000 None of
        (Inl e, qs) \<Rightarrow> (Inl (Wrap ''failed to get transactions for month'' e), qs)
      | (Inr (transactions, lek), qs) \<Rightarrow>
          (case Budget_GetBudgetsByMonth_on c parse unmarshal userID month of
             (Inl e, qs') \<Rightarrow> (Inl (Wrap ''failed to get budgets'' e), qs @ qs')
           | (Inr budgets, qs') \<Rightarrow> (Inr (post transactions budgets), qs @ qs')))"

definition GetCategoryBreakdown_on ::
  "Stdlib \<Rightarrow> Time \<Rightarrow> Client \<Rightarrow> string \<Rightarrow> string
     \<Rightarrow> (error + CategoryBreakdown list) \<times> QueryInput list" where
  "GetCategoryBreakdown_on L now c userID period =
     (if userID = [] then (Inl (Err ''userID is required''), [])
      else case GetTransactionsByMonth_on c userID (Format_2006_01 L now) 1000 None of
        (Inl e, qs) \<Rightarrow> (Inl (Wrap ''failed to get transactions for period'' e), qs)
      | (Inr (transactions, lek), qs) \<Rightarrow>
          (case foldl breakdown_step (0, []) transactions of
             (totalExpenses, categoryMap) \<Rightarrow>
               (case percentages totalExpenses categoryMap of
                  None \<Rightarrow> (Inl Not_finite, qs)
                | Some result \<Rightarrow> (Inr result, qs))))"

definition GetUniqueCategories_on ::
  "Client \<Rightarrow> string \<Rightarrow> (error + string list) \<times> QueryInput list" where
  "GetUniqueCategories_on c userID =
     (if userID = [] then (Inl (Err ''userID is required''), [])
      else case GetTransactionsByUser_on c userID 1000 None of
        (Inl e, qs) \<Rightarrow> (Inl (Wrap ''failed to get user transactions'' e), qs)
      | (Inr (transactions, lek), qs) \<Rightarrow> (Inr (remdups (map Category transactions)), qs))"

definition GetCategoryOptions_on ::
  "Stdlib \<Rightarrow> Client \<Rightarrow> string \<Rightarrow> (error + CategoryOption list) \<times> QueryInput list" where
  "GetCategoryOptions_on L c userID =
     (if userID = [] then (Inl (Err ''userID is required''), [])
      else case GetTransactionsByUser_on c userID 1000 None of
        (Inl e, qs) \<Rightarrow> (Inl (Wrap ''failed to get user transactions'' e), qs)
      | (Inr (transactions, lek), qs) \<Rightarrow>
          (category_options L (remdups (map Category transactions)), qs))"

definition GetMonthsWithTransactions_on ::
  "Stdlib \<Rightarrow> Client \<Rightarrow> string \<Rightarrow> (error + string list) \<times> QueryInput list" where
  "GetMonthsWithTransactions_on L c userID =
     (if userID = [] then (Inl (Err ''userID is required''), [])
      else case GetTransactionsByUser_on c userID 1000 None of
        (Inl e, qs) \<Rightarrow> (Inl (Wrap ''failed to get user transactions'' e), qs)
      | (Inr (transactions, lek), qs) \<Rightarrow>
          (Inr (remdups (map (\<lambda>transaction. Format_2006_01 L (Date transaction)) transactions)),
           qs))"

definition BuildFinancialContext_on ::
  "Client \<Rightarrow> (Transaction list \<Rightarrow> 'r) \<Rightarrow> string \<Rightarrow> (error + 'r) \<times> QueryInput list" where
  "BuildFinancialContext_on c post userID =
     (case GetTransactionsByUser_on c userID 1000 None of
        (Inl e, qs) \<Rightarrow> (Inl (Wrap ''failed to get user transactions'' e), qs)
      | (Inr (allTransactions, lek), qs) \<Rightarrow> (Inr (post allTransactions), qs))"

text \<open>A store that answers the first page of a user's transactions with a key to continue.\<close>

definition two_pages :: Client where
  "two_pages q =
     (if SortKeyPrefix q = Some ''TX#'' \<and> ExclusiveStartKey q = None
      then Inr ([TxItem (seed_keys ''2024-01-15'' tx_food_jan)],
                Some (''USER#u1'', ''TX#2024-01-15#t1''))
      else Inr ([], None))"

text \<open>Parameters for the examples: every month parses, and no item is a budget.\<close>

definition parse_any :: "string \<Rightarrow> error + Time" where
  "parse_any month = Inr (utc 1704067200)"

definition no_budget :: "Item \<Rightarrow> unit option" where
  "no_budget i = None"

definition count_transactions :: "unit list \<Rightarrow> Time \<Rightarrow> Transaction list \<Rightarrow> nat" where
  "count_transactions budgets t allTransactions = length allTransactions"

text \<open>
  A run of the batch write: 26 transactions, an empty table, and a store that processes the
  whole of its first request and leaves every later request unprocessed.
\<close>

definition tx_n :: "nat \<Rightarrow> Transaction" where
  "tx_n n = new_tx ''u1'' (''t'' @ show_nat n) 1705276800 (- 50) ''food'' ''expense''"

definition txs26 :: "Transaction list" where
  "txs26 = map tx_n [0..<26]"

definition clock0 :: "nat \<Rightarrow> Time" where
  "clock0 k = utc (1705300000 + int k)"

definition accepts_first :: Store_Behaviour where
  "accepts_first = \<lparr>fails = (\<lambda>n. False), leaves = (\<lambda>n i. 0 < n)\<rparr>"

definition run_start :: Batch_State where
  "run_start = \<lparr>table = [], calls = [], slept = [], clock_reads = 0\<rparr>"

section \<open>Properties of the store and of the lookup by id\<close>

lemma set_after_start: "set (after_start k xs) \<subseteq> set xs"
proof (cases k)
  case None
  then show ?thesis by (simp add: after_start_def)
next
  case (Some k')
  have "set (drop 1 (dropWhile (\<lambda>i. key_of i \<noteq> k') xs)) \<subseteq> set (dropWhile (\<lambda>i. key_of i \<noteq> k') xs)"
    by (rule set_drop_subset)
  also have "\<dots> \<subseteq> set xs"
    by (auto dest: set_dropWhileD)
  finally show ?thesis using Some by (simp add: after_start_def)
qed

lemma Query_items_match:
  assumes "Query tbl q = Inr (items, lek)"
  shows "set items \<subseteq> {i \<in> set tbl. matches q i}"
proof -
  let ?directed = "if ScanIndexForward q
                   then sort_key (sort_key_of (IndexName q)) (filter (matches q) tbl)
                   else rev (sort_key (sort_key_of (IndexName q)) (filter (matches q) tbl))"
  let ?rest = "after_start (ExclusiveStartKey q) ?directed"
  have rest: "set ?rest \<subseteq> {i \<in> set tbl. matches q i}"
    using set_after_start [of "ExclusiveStartKey q" ?directed] by auto
  have "set items \<subseteq> set ?rest"
    using assms set_take_subset [of _ ?rest]
    by (auto simp: Query_def Let_def split: option.splits if_splits)
  with rest show ?thesis by blast
qed

lemma unmarshal_all_set: "set (unmarshal_all items) = {t. TxItem t \<in> set items}"
  by (induction items) (auto simp: unmarshal_all_def FromDynamoDBItem_def split: Item.splits)

text \<open>
  What \<open>GetTransaction\<close> returns is an item of the user's partition whose sort key begins
  with \<open>TX#\<close> and whose id is the one asked for.
\<close>

lemma GetTransaction_sound:
  assumes "GetTransaction tbl userID transactionID = Inr t"
  shows "TxItem t \<in> set tbl \<and> PK t = ''USER#'' @ userID \<and> begins_with (SK t) ''TX#''
         \<and> ID t = transactionID"
proof -
  from assms obtain items lek where
    q: "Query tbl (GetTransaction_query userID) = Inr (items, lek)" and
    f: "find (\<lambda>t. ID t = transactionID) (unmarshal_all items) = Some t"
    by (auto simp: GetTransaction_def split: sum.splits option.splits)
  from f have "t \<in> set (unmarshal_all items)" and id: "ID t = transactionID"
    by (auto simp: find_Some_iff)
  then have "TxItem t \<in> set items" by (simp add: unmarshal_all_set)
  with Query_items_match [OF q] have "TxItem t \<in> set tbl" and
    "matches (GetTransaction_query userID) (TxItem t)" by auto
  then show ?thesis using id
    by (auto simp: matches_def GetTransaction_query_def key_of_def)
qed

lemma GetTransaction_result:
  "(\<exists>t. GetTransaction tbl userID transactionID = Inr t) \<or>
   GetTransaction tbl userID transactionID = Inl (Err ''transaction not found'')"
  by (auto simp: GetTransaction_def Query_def GetTransaction_query_def Let_def
      split: sum.splits option.splits)

lemma generated_SK_not_TX: "\<not> begins_with (SK (GenerateKeys L t)) ''TX#''"
  by (simp add: GenerateKeys_def begins_with_def)

lemma GetTransaction_generated_table:
  assumes "generated_table L tbl"
  shows "GetTransaction tbl userID transactionID = Inl (Err ''transaction not found'')"
proof -
  have "\<not> (\<exists>t. GetTransaction tbl userID transactionID = Inr t)"
  proof
    assume "\<exists>t. GetTransaction tbl userID transactionID = Inr t"
    then obtain t where "GetTransaction tbl userID transactionID = Inr t" ..
    from GetTransaction_sound [OF this] have "TxItem t \<in> set tbl" and "begins_with (SK t) ''TX#''"
      by auto
    moreover from assms \<open>TxItem t \<in> set tbl\<close> have "SK t = SK (GenerateKeys L t)"
      by (auto simp: generated_table_def list_all_iff)
    ultimately show False using generated_SK_not_TX [of L t] by simp
  qed
  with GetTransaction_result [of tbl userID transactionID] show ?thesis by blast
qed

text \<open>
  C1. \<open>CreateTransaction\<close> stores the transaction under the sort key
  \<open>TRANSACTION#{unix}#{id}\<close>, and \<open>GetTransaction\<close> reads the sort keys that begin with
  \<open>TX#\<close>: the transaction \<open>t1\<close> of user \<open>u1\<close>, created in the empty table, is stored, and
  the lookup of \<open>t1\<close> for \<open>u1\<close> answers "transaction not found".
\<close>

theorem GetTransaction_misses_created:
  "CreateTransaction stdlib [] tx_food_jan = Inr [TxItem (GenerateKeys stdlib tx_food_jan)]
   \<and> ID (GenerateKeys stdlib tx_food_jan) = ''t1''
   \<and> UserID (GenerateKeys stdlib tx_food_jan) = ''u1''
   \<and> SK (GenerateKeys stdlib tx_food_jan) = ''TRANSACTION#1705276800#t1''
   \<and> GetTransaction [TxItem (GenerateKeys stdlib tx_food_jan)] ''u1'' ''t1''
       = Inl (Err ''transaction not found'')"
proof -
  have "generated_table stdlib [TxItem (GenerateKeys stdlib tx_food_jan)]"
    by (simp add: generated_table_def GenerateKeys_def)
  then have "GetTransaction [TxItem (GenerateKeys stdlib tx_food_jan)] ''u1'' ''t1''
       = Inl (Err ''transaction not found'')"
    by (rule GetTransaction_generated_table)
  moreover have "CreateTransaction stdlib [] tx_food_jan
      = Inr [TxItem (GenerateKeys stdlib tx_food_jan)]"
    by (simp add: CreateTransaction_def PutItem_def ToDynamoDBItem_def get_item_def
        put_item_def)
  moreover have "SK (GenerateKeys stdlib tx_food_jan) = ''TRANSACTION#1705276800#t1''"
    by (simp add: GenerateKeys_def tx_food_jan_def new_tx_def utc_def show_int_def show_nat.simps digit_def)
  moreover have "ID (GenerateKeys stdlib tx_food_jan) = ''t1''"
    "UserID (GenerateKeys stdlib tx_food_jan) = ''u1''"
    by (simp_all add: GenerateKeys_def tx_food_jan_def new_tx_def)
  ultimately show ?thesis by simp
qed

section \<open>Evaluation of the example data\<close>

lemma civil_year_month_examples:
  "civil_year_month 19737 = (2024, 1)"
  "civil_year_month 19742 = (2024, 1)"
  "civil_year_month 19754 = (2024, 2)"
  by code_simp+

lemma format_month_examples:
  "format_month (utc 1705276800) = ''2024-01''"
  "format_month (utc 1705708800) = ''2024-01''"
  "format_month (utc 1706745600) = ''2024-02''"
  by (simp_all add: format_month_def utc_def civil_year_month_examples pad_def show_int_def
      show_nat.simps digit_def)

lemma show_int_examples:
  "show_int (Unix (utc 1705276800)) = ''1705276800''"
  "show_int (Unix (utc 1705708800)) = ''1705708800''"
  "show_int (Unix (utc 1706745600)) = ''1706745600''"
  by (simp_all add: show_int_def show_nat.simps digit_def utc_def)

lemma ascii_upper_examples:
  "map ascii_upper ''food'' = ''FOOD''"
  "map ascii_upper ''salary'' = ''SALARY''"
  by (simp_all add: ascii_upper_def)

lemma created_keys:
  "GenerateKeys stdlib tx_food_jan = tx_food_jan
     \<lparr>PK := ''USER#u1'', SK := ''TRANSACTION#1705276800#t1'',
      GSI1PK := ''MONTH#2024-01#u1'', GSI1SK := ''TRANSACTION#1705276800'',
      GSI2PK := ''CATEGORY#FOOD#u1'', GSI2SK := ''TRANSACTION#1705276800''\<rparr>"
  "GenerateKeys stdlib tx_salary_jan = tx_salary_jan
     \<lparr>PK := ''USER#u1'', SK := ''TRANSACTION#1705708800#t2'',
      GSI1PK := ''MONTH#2024-01#u1'', GSI1SK := ''TRANSACTION#1705708800'',
      GSI2PK := ''CATEGORY#SALARY#u1'', GSI2SK := ''TRANSACTION#1705708800''\<rparr>"
  "GenerateKeys stdlib tx_food_feb = tx_food_feb
     \<lparr>PK := ''USER#u1'', SK := ''TRANSACTION#1706745600#t3'',
      GSI1PK := ''MONTH#2024-02#u1'', GSI1SK := ''TRANSACTION#1706745600'',
      GSI2PK := ''CATEGORY#FOOD#u1'', GSI2SK := ''TRANSACTION#1706745600''\<rparr>"
  by (simp_all add: GenerateKeys_def stdlib_def tx_food_jan_def tx_salary_jan_def
      tx_food_feb_def new_tx_def format_month_examples show_int_examples
      ascii_upper_examples [simplified] utc_def [symmetric])

lemma created_month_query:
  "GetTransactionsByMonth created_table ''u1'' ''2024-01'' 1000 None
     = Inr ([GenerateKeys stdlib tx_salary_jan, GenerateKeys stdlib tx_food_jan], None)"
  unfolding created_table_def created_keys
  by (simp add: GetTransactionsByMonth_def Query_def matches_def sort_key_of_def
      after_start_def int32_def unmarshal_all_def FromDynamoDBItem_def Let_def
      tx_food_jan_def tx_salary_jan_def tx_food_feb_def new_tx_def)

section \<open>Monthly analytics\<close>

lemma analytics_fold:
  "TotalIncome (foldl analytics_step a txs)
     = TotalIncome a + sum_list (map Amount (filter (\<lambda>t. Type t = ''income'') txs))
   \<and> TotalExpense (foldl analytics_step a txs)
     = TotalExpense a + sum_list (map Amount (filter (\<lambda>t. Type t \<noteq> ''income'') txs))
   \<and> TransactionCount (foldl analytics_step a txs) = TransactionCount a + int (length txs)"
  by (induction txs arbitrary: a)
    (simp_all add: analytics_step_def Let_def TransactionTypeIncome_def)

text \<open>
  What \<open>GetMonthlyAnalytics\<close> computes from the fetched transactions: the total expense is
  the sum of the amounts of the transactions that are not of type income, with their
  signs, and the balance is the total income minus that sum.
\<close>

lemma GetMonthlyAnalytics_totals:
  assumes "GetTransactionsByMonth tbl userID month 1000 None = Inr (txs, lek)"
  shows "\<exists>a. GetMonthlyAnalytics tbl userID month = Inr a
          \<and> TotalIncome a = sum_list (map Amount (filter (\<lambda>t. Type t = ''income'') txs))
          \<and> TotalExpense a = sum_list (map Amount (filter (\<lambda>t. Type t \<noteq> ''income'') txs))
          \<and> Balance a = TotalIncome a - TotalExpense a
          \<and> TransactionCount a = int (length txs)"
  using assms by (simp add: GetMonthlyAnalytics_def Let_def analytics_fold)

text \<open>
  C3. For January 2024 of user \<open>u1\<close>, with the income of 2000 and the expense of -50
  stored by \<open>CreateTransaction\<close>, \<open>GetMonthlyAnalytics\<close> returns the total income 2000, the
  total expense -50 (the signed sum, not its absolute value 50) and the balance
  2000 - (-50) = 2050 (not 1950).
\<close>

theorem GetMonthlyAnalytics_signed_expense:
  "map_sum id (\<lambda>a. (Month a, TotalIncome a, TotalExpense a, Balance a, TransactionCount a))
     (GetMonthlyAnalytics created_table ''u1'' ''2024-01'')
   = Inr (''2024-01'', 2000, - 50, 2050, 2)"
  by (simp add: GetMonthlyAnalytics_def created_month_query analytics_step_def Let_def
      TransactionTypeIncome_def GenerateKeys_def tx_food_jan_def tx_salary_jan_def new_tx_def)

section \<open>Validation on the create path\<close>

lemma get_item_put_item: "get_item (put_item tbl i) (key_of i) = Some i"
proof (cases "get_item tbl (key_of i)")
  case None
  then have "find (\<lambda>j. key_of j = key_of i) (tbl @ [i]) = Some i"
    by (induction tbl) (auto simp: get_item_def)
  with None show ?thesis by (simp add: put_item_def get_item_def)
next
  case (Some old)
  then have "find (\<lambda>j. key_of j = key_of i) (map (\<lambda>j. if key_of j = key_of i then i else j) tbl)
      = Some i"
    by (induction tbl) (auto simp: get_item_def split: if_splits)
  with Some show ?thesis by (simp add: put_item_def get_item_def)
qed

lemma get_item_in_set: "get_item tbl k = Some i \<Longrightarrow> i \<in> set tbl"
  by (auto simp: get_item_def find_Some_iff)

lemma CreateTransaction_stores:
  assumes "CreateTransaction L tbl t = Inr tbl'"
  shows "TxItem (GenerateKeys L t) \<in> set tbl'"
proof -
  from assms have "tbl' = put_item tbl (TxItem (GenerateKeys L t))"
    by (auto simp: CreateTransaction_def PutItem_def ToDynamoDBItem_def split: if_splits)
  then show ?thesis
    using get_item_put_item [of tbl "TxItem (GenerateKeys L t)"] by (simp add: get_item_in_set)
qed

lemma GenerateKeys_fields:
  "Date (GenerateKeys L t) = Date t" "ID (GenerateKeys L t) = ID t"
  "UserID (GenerateKeys L t) = UserID t" "Category (GenerateKeys L t) = Category t"
  "Amount (GenerateKeys L t) = Amount t" "Type (GenerateKeys L t) = Type t"
  "Description (GenerateKeys L t) = Description t" "CreatedAt (GenerateKeys L t) = CreatedAt t"
  "UpdatedAt (GenerateKeys L t) = UpdatedAt t" "Version (GenerateKeys L t) = Version t"
  by (simp_all add: GenerateKeys_def)

lemma GenerateKeys_idem: "GenerateKeys L (GenerateKeys L t) = GenerateKeys L t"
  by (simp add: GenerateKeys_def)

text \<open>
  C7, as the code has it. A transaction with the zero date that is valid otherwise is not
  rejected on the create path: \<open>ValidateTransaction\<close> accepts it and puts the current time
  in the place of the date, and when \<open>CreateTransaction\<close> succeeds the table holds the
  transaction with the current time as its date. The entity validation
  \<open>Transaction.Validate\<close>, which the create path does not call, is the one that rejects
  the zero date.
\<close>

theorem create_path_substitutes_zero_date:
  assumes "IsZero (Date t)" and "UserID t \<noteq> []" and "Amount t \<noteq> 0" and "Category t \<noteq> []"
    and "Type t = ''income'' \<or> Type t = ''expense''" and "Description t \<noteq> []"
  shows "(\<exists>t'. ValidateTransaction uuid now (Some t) = Inr t' \<and> Date t' = now)
       \<and> (\<forall>tbl'. Service_CreateTransaction L uuid now tbl (Some t) = Inr tbl' \<longrightarrow>
             (\<exists>t'. TxItem t' \<in> set tbl' \<and> Date t' = now
                   \<and> ID t' = (if ID t = [] then uuid else ID t) \<and> UserID t' = UserID t))
       \<and> Validate t = Some (Err ''date is required'')"
proof -
  have "\<exists>t'. ValidateTransaction uuid now (Some t) = Inr t' \<and> Date t' = now
          \<and> ID t' = (if ID t = [] then uuid else ID t) \<and> UserID t' = UserID t"
    using assms
    by (cases "ID t = []"; cases "IsZero (CreatedAt t)"; cases "Version t = 0")
      (auto simp: ValidateTransaction_def Let_def TransactionTypeIncome_def
        TransactionTypeExpense_def)
  then obtain t' where v: "ValidateTransaction uuid now (Some t) = Inr t'" and d: "Date t' = now"
    and i: "ID t' = (if ID t = [] then uuid else ID t)" and u: "UserID t' = UserID t"
    by blast
  have "\<exists>s. TxItem s \<in> set tbl' \<and> Date s = now
            \<and> ID s = (if ID t = [] then uuid else ID t) \<and> UserID s = UserID t"
    if "Service_CreateTransaction L uuid now tbl (Some t) = Inr tbl'" for tbl'
  proof -
    from that v have "CreateTransaction L tbl (GenerateKeys L t') = Inr tbl'"
      by (simp add: Service_CreateTransaction_def)
    from CreateTransaction_stores [OF this]
    have "TxItem (GenerateKeys L t') \<in> set tbl'" by (simp add: GenerateKeys_idem)
    with d i u show ?thesis by (auto simp: GenerateKeys_fields)
  qed
  moreover have "Validate t = Some (Err ''date is required'')"
    using assms by (auto simp: Validate_def)
  ultimately show ?thesis using v d by blast
qed

theorem create_path_substitutes_zero_date_witness:
  "IsZero (Date tx_no_date)
   \<and> ValidateTransaction ''id-1'' (utc 1705276800) (Some tx_no_date)
       = Inr (tx_no_date\<lparr>Date := utc 1705276800, CreatedAt := utc 1705276800,
                          UpdatedAt := utc 1705276800, Version := 1\<rparr>)
   \<and> Validate tx_no_date = Some (Err ''date is required'')"
proof -
  have z: "IsZero (Date tx_no_date)"
    by (simp add: tx_no_date_def IsZero_def zeroTime_def)
  have "UserID tx_no_date \<noteq> []" "Amount tx_no_date \<noteq> 0" "Category tx_no_date \<noteq> []"
    "Type tx_no_date = ''income'' \<or> Type tx_no_date = ''expense''"
    "Description tx_no_date \<noteq> []"
    by (simp_all add: tx_no_date_def tx_food_jan_def new_tx_def)
  from create_path_substitutes_zero_date [OF z this]
  have "Validate tx_no_date = Some (Err ''date is required'')" by blast
  moreover have "ValidateTransaction ''id-1'' (utc 1705276800) (Some tx_no_date)
       = Inr (tx_no_date\<lparr>Date := utc 1705276800, CreatedAt := utc 1705276800,
                          UpdatedAt := utc 1705276800, Version := 1\<rparr>)"
    by (simp add: ValidateTransaction_def Let_def tx_no_date_def tx_food_jan_def new_tx_def
        IsZero_def zeroTime_def TransactionTypeIncome_def TransactionTypeExpense_def)
  ultimately show ?thesis using z by simp
qed

text \<open>
  The claim as written fails: the transaction \<open>t1\<close> with the zero date, given to the
  create path of the service at the time 2024-01-15, is not rejected, and the table then
  holds it with the date 2024-01-15.
\<close>

theorem zero_date_is_stored:
  "IsZero (Date tx_no_date)
   \<and> Service_CreateTransaction stdlib ''id-1'' (utc 1705276800) [] (Some tx_no_date)
       = Inr [TxItem (GenerateKeys stdlib
               (tx_no_date\<lparr>Date := utc 1705276800, CreatedAt := utc 1705276800,
                            UpdatedAt := utc 1705276800, Version := 1\<rparr>))]
   \<and> Date (GenerateKeys stdlib
               (tx_no_date\<lparr>Date := utc 1705276800, CreatedAt := utc 1705276800,
                            UpdatedAt := utc 1705276800, Version := 1\<rparr>)) = utc 1705276800"
proof -
  have "ValidateTransaction ''id-1'' (utc 1705276800) (Some tx_no_date)
       = Inr (tx_no_date\<lparr>Date := utc 1705276800, CreatedAt := utc 1705276800,
                          UpdatedAt := utc 1705276800, Version := 1\<rparr>)"
    by (simp add: ValidateTransaction_def Let_def tx_no_date_def tx_food_jan_def new_tx_def
        IsZero_def zeroTime_def TransactionTypeIncome_def TransactionTypeExpense_def)
  then show ?thesis
    by (simp add: Service_CreateTransaction_def CreateTransaction_def PutItem_def
        ToDynamoDBItem_def get_item_def put_item_def GenerateKeys_idem GenerateKeys_fields
        tx_no_date_def IsZero_def zeroTime_def)
qed

section \<open>Category options\<close>

lemma category_options_total:
  assumes "[] \<notin> set cs"
  shows "\<exists>options. category_options L cs = Inr options \<and> map Value options = cs
           \<and> length options = length cs"
  using assms
proof (induction cs)
  case Nil
  then show ?case by simp
next
  case (Cons c cs)
  then obtain b bs where c: "c = b # bs" by (cases c) auto
  from Cons obtain options where "category_options L cs = Inr options"
    "map Value options = cs" "length options = length cs" by auto
  with c show ?case by simp
qed

lemma category_options_panic:
  assumes "[] \<in> set cs"
  shows "category_options L cs = Inl (Panic ''runtime error: index out of range [0] with length 0'')"
  using assms
proof (induction cs)
  case Nil
  then show ?case by simp
next
  case (Cons c cs)
  show ?case
  proof (cases c)
    case Nil
    then show ?thesis by simp
  next
    case (Cons b bs)
    with Cons.prems have "[] \<in> set cs" by simp
    with Cons.IH Cons show ?thesis by simp
  qed
qed

lemma seeded_user_query:
  "GetTransactionsByUser seeded_table ''u1'' 1000 None
     = Inr ([seed_keys ''2024-02-01'' tx_food_feb, seed_keys ''2024-01-20'' tx_salary_jan,
             seed_keys ''2024-01-15'' tx_food_jan], None)"
  by (simp add: GetTransactionsByUser_def Query_def matches_def sort_key_of_def key_of_def
      after_start_def int32_def unmarshal_all_def FromDynamoDBItem_def Let_def begins_with_def
      seeded_table_def seed_keys_def tx_food_jan_def tx_salary_jan_def tx_food_feb_def
      new_tx_def)

lemma seeded_no_category_user_query:
  "GetTransactionsByUser seeded_table_no_category ''u1'' 1000 None
     = Inr ([seed_keys ''2024-02-01'' tx_no_category, seed_keys ''2024-02-01'' tx_food_feb,
             seed_keys ''2024-01-20'' tx_salary_jan, seed_keys ''2024-01-15'' tx_food_jan], None)"
  by (simp add: GetTransactionsByUser_def Query_def matches_def sort_key_of_def key_of_def
      after_start_def int32_def unmarshal_all_def FromDynamoDBItem_def Let_def begins_with_def
      seeded_table_no_category_def seeded_table_def seed_keys_def tx_food_jan_def
      tx_salary_jan_def tx_food_feb_def tx_no_category_def new_tx_def)

text \<open>
  C10. \<open>GetCategoryOptions\<close> indexes the first byte of every category of the fetched
  transactions. When every fetched transaction has a non-empty category the call returns
  one option per distinct category, each with the category as its value; when some
  fetched transaction has the empty category the call panics with an index out of range.
\<close>

theorem GetCategoryOptions_panics_iff_empty_category:
  assumes "userID \<noteq> []"
    and "GetTransactionsByUser tbl userID 1000 None = Inr (transactions, lek)"
  shows "(if list_all (\<lambda>t. Category t \<noteq> []) transactions
          then \<exists>options. GetCategoryOptions L tbl userID = Inr options
                 \<and> map Value options = remdups (map Category transactions)
          else GetCategoryOptions L tbl userID
                 = Inl (Panic ''runtime error: index out of range [0] with length 0''))"
proof (cases "list_all (\<lambda>t. Category t \<noteq> []) transactions")
  case True
  then have "[] \<notin> set (remdups (map Category transactions))"
    by (auto simp: list_all_iff)
  from category_options_total [OF this, of L] True assms show ?thesis
    by (auto simp: GetCategoryOptions_def)
next
  case False
  then have "[] \<in> set (remdups (map Category transactions))"
    by (auto simp: list_all_iff image_iff) metis
  from category_options_panic [OF this, of L] False assms show ?thesis
    by (simp add: GetCategoryOptions_def)
qed

theorem GetCategoryOptions_panics_iff_empty_category_witness:
  "GetCategoryOptions stdlib seeded_table ''u1''
     = Inr [\<lparr>Label = ''Salary'', Value = ''salary''\<rparr>, \<lparr>Label = ''Food'', Value = ''food''\<rparr>]
   \<and> GetCategoryOptions stdlib seeded_table_no_category ''u1''
     = Inl (Panic ''runtime error: index out of range [0] with length 0'')"
proof -
  have u: "''u1'' \<noteq> []" by simp
  have "\<not> list_all (\<lambda>t. Category t \<noteq> [])
          [seed_keys ''2024-02-01'' tx_no_category, seed_keys ''2024-02-01'' tx_food_feb,
           seed_keys ''2024-01-20'' tx_salary_jan, seed_keys ''2024-01-15'' tx_food_jan]"
    by (simp add: seed_keys_def tx_no_category_def new_tx_def)
  with GetCategoryOptions_panics_iff_empty_category
    [OF u seeded_no_category_user_query, of stdlib]
  have "GetCategoryOptions stdlib seeded_table_no_category ''u1''
     = Inl (Panic ''runtime error: index out of range [0] with length 0'')"
    by simp
  moreover have "GetCategoryOptions stdlib seeded_table ''u1''
     = Inr [\<lparr>Label = ''Salary'', Value = ''salary''\<rparr>, \<lparr>Label = ''Food'', Value = ''food''\<rparr>]"
    by (simp add: GetCategoryOptions_def seeded_user_query seed_keys_def tx_food_jan_def
        tx_salary_jan_def tx_food_feb_def new_tx_def stdlib_def string_of_byte_def
        ascii_upper_def)
  ultimately show ?thesis by simp
qed

section \<open>Category percentages\<close>

lemma sum_list_update:
  fixes f :: "'v \<Rightarrow> real"
  shows "(\<Sum>p\<leftarrow>AList.update k v m. f (snd p))
     = (\<Sum>p\<leftarrow>m. f (snd p)) - (case map_of m k of None \<Rightarrow> 0 | Some b \<Rightarrow> f b) + f v"
  by (induction m) auto

lemma list_all_update:
  assumes "P v" and "list_all (\<lambda>p. P (snd p)) m"
  shows "list_all (\<lambda>p. P (snd p)) (AList.update k v m)"
  using assms by (induction m) auto

lemma map_of_list_all:
  assumes "map_of m k = Some b" and "list_all (\<lambda>p. P (snd p)) m"
  shows "P b"
  using assms by (auto simp: list_all_iff dest!: map_of_SomeD)

lemma add_expense_total: "total_of (add_expense m t) = total_of m + - Amount t"
  by (simp add: total_of_def add_expense_def Let_def sum_list_update split: option.splits)

lemma add_expense_unset:
  assumes "unset m"
  shows "unset (add_expense m t)"
proof (cases "map_of m (Category t)")
  case None
  with assms show ?thesis
    unfolding unset_def add_expense_def Let_def
    by (intro list_all_update) simp_all
next
  case (Some b)
  with assms have "Percentage b = 0"
    unfolding unset_def by (auto simp: list_all_iff dest!: map_of_SomeD)
  with Some assms show ?thesis
    unfolding unset_def add_expense_def Let_def
    by (intro list_all_update) simp_all
qed

lemma summary_fold:
  assumes "total_of m = e" and "unset m"
    and "foldl summary_step (i, e, m) txs = (i', e', m')"
  shows "total_of m' = e' \<and> unset m'"
  using assms
proof (induction txs arbitrary: i e m)
  case Nil
  then show ?case by simp
next
  case (Cons t txs)
  obtain i1 e1 m1 where s: "summary_step (i, e, m) t = (i1, e1, m1)"
    by (cases "summary_step (i, e, m) t") auto
  then have "total_of m1 = e1 \<and> unset m1"
    using Cons.prems(1,2)
    by (auto simp: summary_step_def add_expense_total add_expense_unset split: if_splits)
  with Cons.IH [of m1 e1 i1] Cons.prems(3) s show ?case by simp
qed

lemma breakdown_fold:
  assumes "total_of m = e" and "unset m"
    and "foldl breakdown_step (e, m) txs = (e', m')"
  shows "total_of m' = e' \<and> unset m'
         \<and> e' = e + (\<Sum>t\<leftarrow>filter (\<lambda>t. Type t = ''expense'') txs. - Amount t)"
  using assms
proof (induction txs arbitrary: e m)
  case Nil
  then show ?case by simp
next
  case (Cons t txs)
  obtain e1 m1 where s: "breakdown_step (e, m) t = (e1, m1)"
    by (cases "breakdown_step (e, m) t") auto
  then have 1: "total_of m1 = e1 \<and> unset m1"
    and 2: "e1 = e + (if Type t = ''expense'' then - Amount t else 0)"
    using Cons.prems(1,2)
    by (auto simp: breakdown_step_def add_expense_total add_expense_unset
        TransactionTypeExpense_def split: if_splits)
  from Cons.IH [of m1 e1] Cons.prems(3) s 1
  have "total_of m' = e' \<and> unset m'
         \<and> e' = e1 + (\<Sum>t\<leftarrow>filter (\<lambda>t. Type t = ''expense'') txs. - Amount t)"
    by simp
  with 2 show ?case by simp
qed

lemma percentages_nonpositive:
  assumes "\<not> tot > 0"
  shows "percentages tot m = Some (map snd m)"
  using assms by (induction m) auto

lemma percentages_positive:
  assumes "tot > 0"
  shows "percentages tot m
     = Some (map (\<lambda>p. (snd p)\<lparr>Percentage := Amount_cb (snd p) / tot * 100\<rparr>) m)"
  using assms by (induction m) (auto simp: fdiv_def)

lemma percentages_defined: "percentages tot m \<noteq> None"
  by (cases "tot > 0") (simp_all add: percentages_positive percentages_nonpositive)

lemma percentages_sum:
  assumes "percentages tot m = Some bs"
  shows "(\<not> tot > 0 \<longrightarrow> unset m \<longrightarrow> list_all (\<lambda>b. Percentage b = 0) bs)
       \<and> (tot > 0 \<longrightarrow> total_of m = tot \<longrightarrow> sum_list (map Percentage bs) = 100)"
proof (cases "tot > 0")
  case True
  with assms have bs: "bs = map (\<lambda>p. (snd p)\<lparr>Percentage := Amount_cb (snd p) / tot * 100\<rparr>) m"
    by (simp add: percentages_positive)
  have "sum_list (map Percentage bs) = (\<Sum>p\<leftarrow>m. Amount_cb (snd p) / tot * 100)"
    unfolding bs by (simp add: comp_def)
  also have "\<dots> = total_of m / tot * 100"
    unfolding total_of_def by (induction m) (simp_all add: add_divide_distrib distrib_right)
  finally show ?thesis using True by simp
next
  case False
  with assms have "bs = map snd m" by (simp add: percentages_nonpositive)
  with False show ?thesis by (simp add: unset_def list_all_iff)
qed

lemma sum_list_sort_key:
  fixes g :: "'a \<Rightarrow> real"
  shows "sum_list (map g (sort_key k xs)) = sum_list (map g xs)"
proof -
  have "sum_list (map g (sort_key k xs)) = sum_mset (image_mset g (mset (sort_key k xs)))"
    by (metis mset_map sum_mset_sum_list)
  also have "\<dots> = sum_mset (image_mset g (mset xs))" by simp
  also have "\<dots> = sum_list (map g xs)" by (metis mset_map sum_mset_sum_list)
  finally show ?thesis .
qed

lemma GetFinancialSummary_result:
  assumes "userID \<noteq> []"
    and "GetTransactionsByUser tbl userID 1000 None = Inr (txs, lek)"
    and "foldl summary_step (0, 0, []) txs = (i, e, m)"
  shows "\<exists>bs. percentages e m = Some bs
          \<and> GetFinancialSummary now tbl userID
              = Inr \<lparr>TotalBalance = i - e, MonthlyIncome = i, MonthlyExpenses = - e,
                     AvailableMoney = i - e,
                     SavingsRate = (if i > 0 then (i - e) / i * 100 else 0),
                     CategoryBreakdown = sort_key Category_cb bs,
                     MonthlyTrend = 0, Timestamp = now\<rparr>"
proof -
  from percentages_defined [of e m] obtain bs where "percentages e m = Some bs" by auto
  with assms show ?thesis
    by (auto simp: GetFinancialSummary_def Let_def fdiv_def)
qed

lemma GetFinancialSummary_finite: "GetFinancialSummary now tbl userID \<noteq> Inl Not_finite"
proof (cases "userID = []")
  case True
  then show ?thesis by (simp add: GetFinancialSummary_def)
next
  case False
  show ?thesis
  proof (cases "GetTransactionsByUser tbl userID 1000 None")
    case (Inl e)
    with False show ?thesis by (simp add: GetFinancialSummary_def)
  next
    case (Inr r)
    obtain txs lek where r: "r = (txs, lek)" by (cases r)
    obtain i e m where "foldl summary_step (0, 0, []) txs = (i, e, m)"
      by (cases "foldl summary_step (0, 0, []) txs") auto
    from GetFinancialSummary_result [OF False Inr [unfolded r] this, of now]
    show ?thesis by auto
  qed
qed

lemma GetFinancialSummary_percentages:
  assumes "GetFinancialSummary now tbl userID = Inr s"
  shows "(0 \<le> MonthlyExpenses s \<longrightarrow> list_all (\<lambda>b. Percentage b = 0) (CategoryBreakdown s))
       \<and> (MonthlyExpenses s < 0 \<longrightarrow> sum_list (map Percentage (CategoryBreakdown s)) = 100)"
proof -
  from assms have u: "userID \<noteq> []"
    by (auto simp: GetFinancialSummary_def)
  from assms obtain txs lek where q: "GetTransactionsByUser tbl userID 1000 None = Inr (txs, lek)"
    by (cases "GetTransactionsByUser tbl userID 1000 None")
      (auto simp: GetFinancialSummary_def split: if_splits)
  obtain i e m where f: "foldl summary_step (0, 0, []) txs = (i, e, m)"
    by (cases "foldl summary_step (0, 0, []) txs") auto
  from GetFinancialSummary_result [OF u q f, of now] assms obtain bs where
    p: "percentages e m = Some bs" and e: "MonthlyExpenses s = - e"
    and c: "CategoryBreakdown s = sort_key Category_cb bs"
    by auto
  have "total_of [] = 0" "unset []" by (simp_all add: total_of_def unset_def)
  from summary_fold [OF this f] have inv: "total_of m = e" "unset m" by simp_all
  from percentages_sum [OF p] inv e c show ?thesis
    by (auto simp: sum_list_sort_key list_all_iff)
qed

lemma GetCategoryBreakdown_finite:
  "GetCategoryBreakdown L now tbl userID period \<noteq> Inl Not_finite"
proof -
  have "\<And>e m. (case percentages e m of None \<Rightarrow> Inl Not_finite | Some result \<Rightarrow> Inr result)
      \<noteq> Inl Not_finite"
    using percentages_defined by (auto split: option.splits)
  then show ?thesis
    by (auto simp: GetCategoryBreakdown_def split: sum.splits prod.splits)
qed

lemma GetCategoryBreakdown_percentages:
  assumes "GetTransactionsByMonth tbl userID (Format_2006_01 L now) 1000 None = Inr (txs, lek)"
    and "GetCategoryBreakdown L now tbl userID period = Inr bs"
  shows "(\<not> 0 < (\<Sum>t\<leftarrow>filter (\<lambda>t. Type t = ''expense'') txs. - Amount t)
            \<longrightarrow> list_all (\<lambda>b. Percentage b = 0) bs)
       \<and> (0 < (\<Sum>t\<leftarrow>filter (\<lambda>t. Type t = ''expense'') txs. - Amount t)
            \<longrightarrow> sum_list (map Percentage bs) = 100)"
proof -
  obtain e m where f: "foldl breakdown_step (0, []) txs = (e, m)"
    by (cases "foldl breakdown_step (0, []) txs") auto
  with assms have p: "percentages e m = Some bs"
    by (auto simp: GetCategoryBreakdown_def split: if_splits option.splits)
  have "total_of [] = 0" "unset []" by (simp_all add: total_of_def unset_def)
  from breakdown_fold [OF this f] have inv: "total_of m = e" "unset m"
    and e: "e = (\<Sum>t\<leftarrow>filter (\<lambda>t. Type t = ''expense'') txs. - Amount t)" by simp_all
  from percentages_sum [OF p] inv show ?thesis unfolding e [symmetric] by auto
qed

lemma seeded_summary:
  "GetFinancialSummary now seeded_table ''u1''
     = Inr \<lparr>TotalBalance = 1920, MonthlyIncome = 2000, MonthlyExpenses = - 80,
            AvailableMoney = 1920, SavingsRate = 96,
            CategoryBreakdown = [\<lparr>Category_cb = ''food'', Amount_cb = 80, Percentage = 100,
                                  Count = 2, Color = []\<rparr>],
            MonthlyTrend = 0, Timestamp = now\<rparr>"
  by (simp add: GetFinancialSummary_def seeded_user_query summary_step_def add_expense_def
      fdiv_def TransactionTypeIncome_def TransactionTypeExpense_def seed_keys_def
      tx_food_jan_def tx_salary_jan_def tx_food_feb_def new_tx_def)

lemma cancelling_summary:
  "GetFinancialSummary now cancelling_table ''u2''
     = Inr \<lparr>TotalBalance = 0, MonthlyIncome = 0, MonthlyExpenses = 0,
            AvailableMoney = 0, SavingsRate = 0,
            CategoryBreakdown =
              [\<lparr>Category_cb = ''food'', Amount_cb = 30, Percentage = 0, Count = 1, Color = []\<rparr>,
               \<lparr>Category_cb = ''rent'', Amount_cb = - 30, Percentage = 0, Count = 1,
                 Color = []\<rparr>],
            MonthlyTrend = 0, Timestamp = now\<rparr>"
  by (simp add: GetFinancialSummary_def GetTransactionsByUser_def Query_def matches_def
      sort_key_of_def key_of_def after_start_def int32_def unmarshal_all_def
      FromDynamoDBItem_def Let_def begins_with_def cancelling_table_def summary_step_def
      add_expense_def fdiv_def TransactionTypeIncome_def TransactionTypeExpense_def
      seed_keys_def new_tx_def)

lemma seeded_month_query:
  "GetTransactionsByMonth seeded_table ''u1'' ''2024-01'' 1000 None
     = Inr ([seed_keys ''2024-01-20'' tx_salary_jan, seed_keys ''2024-01-15'' tx_food_jan], None)"
  by (simp add: GetTransactionsByMonth_def Query_def matches_def sort_key_of_def
      after_start_def int32_def unmarshal_all_def FromDynamoDBItem_def Let_def
      seeded_table_def seed_keys_def tx_food_jan_def tx_salary_jan_def tx_food_feb_def
      new_tx_def)

lemma seeded_breakdown:
  "GetCategoryBreakdown stdlib (utc 1705276800) seeded_table ''u1'' period
     = Inr [\<lparr>Category_cb = ''food'', Amount_cb = 50, Percentage = 100, Count = 1, Color = []\<rparr>]"
proof -
  have "Format_2006_01 stdlib (utc 1705276800) = ''2024-01''"
    by (simp add: stdlib_def format_month_examples)
  then show ?thesis
    by (simp add: GetCategoryBreakdown_def seeded_month_query breakdown_step_def
        add_expense_def fdiv_def TransactionTypeExpense_def seed_keys_def tx_food_jan_def
        tx_salary_jan_def new_tx_def)
qed

text \<open>
  C5. The percentages of \<open>GetFinancialSummary\<close> and of \<open>GetCategoryBreakdown\<close> never take
  a quotient with divisor zero: neither call ends in \<open>Not_finite\<close>. When the total expense
  is zero (or, with expenses of positive amount, below zero) every category of the result
  has the percentage 0, and when the total expense is positive the percentages of the
  result add up to 100. The total expense of \<open>GetFinancialSummary\<close> is the negated
  \<open>MonthlyExpenses\<close> of its result; that of \<open>GetCategoryBreakdown\<close> is the sum of the
  negated amounts of the fetched expense transactions. Nothing is assumed about the signs
  of the amounts.
\<close>

theorem percentages_guarded:
  "GetFinancialSummary now tbl userID \<noteq> Inl Not_finite
   \<and> GetCategoryBreakdown L now tbl userID period \<noteq> Inl Not_finite
   \<and> (\<forall>s. GetFinancialSummary now tbl userID = Inr s \<longrightarrow>
         (0 \<le> MonthlyExpenses s \<longrightarrow> list_all (\<lambda>b. Percentage b = 0) (CategoryBreakdown s))
       \<and> (MonthlyExpenses s < 0 \<longrightarrow> sum_list (map Percentage (CategoryBreakdown s)) = 100))
   \<and> (\<forall>txs lek bs.
         GetTransactionsByMonth tbl userID (Format_2006_01 L now) 1000 None = Inr (txs, lek) \<longrightarrow>
         GetCategoryBreakdown L now tbl userID period = Inr bs \<longrightarrow>
           (\<not> 0 < (\<Sum>t\<leftarrow>filter (\<lambda>t. Type t = ''expense'') txs. - Amount t)
              \<longrightarrow> list_all (\<lambda>b. Percentage b = 0) bs)
         \<and> (0 < (\<Sum>t\<leftarrow>filter (\<lambda>t. Type t = ''expense'') txs. - Amount t)
              \<longrightarrow> sum_list (map Percentage bs) = 100))"
  using GetFinancialSummary_finite [of now tbl userID]
    GetCategoryBreakdown_finite [of L now tbl userID period]
    GetFinancialSummary_percentages [of now tbl userID]
    GetCategoryBreakdown_percentages [of tbl userID L now _ _ period]
  by blast

theorem percentages_guarded_witness:
  "map_sum id (\<lambda>s. (MonthlyExpenses s, map Percentage (CategoryBreakdown s)))
     (GetFinancialSummary (utc 0) seeded_table ''u1'') = Inr (- 80, [100])
   \<and> map_sum id (\<lambda>s. (MonthlyExpenses s, map Percentage (CategoryBreakdown s)))
     (GetFinancialSummary (utc 0) cancelling_table ''u2'') = Inr (0, [0, 0])
   \<and> map_sum id (map Percentage)
     (GetCategoryBreakdown stdlib (utc 1705276800) seeded_table ''u1'' ''month'') = Inr [100]
   \<and> sum_list (map Percentage
        [\<lparr>Category_cb = ''food'', Amount_cb = 50, Percentage = 100, Count = 1, Color = []\<rparr>])
      = 100"
proof -
  have m: "Format_2006_01 stdlib (utc 1705276800) = ''2024-01''"
    by (simp add: stdlib_def format_month_examples)
  have "0 < (\<Sum>t\<leftarrow>filter (\<lambda>t. Type t = ''expense'')
              [seed_keys ''2024-01-20'' tx_salary_jan, seed_keys ''2024-01-15'' tx_food_jan].
              - Amount t)"
    by (simp add: seed_keys_def tx_salary_jan_def tx_food_jan_def new_tx_def)
  with percentages_guarded [of "utc 1705276800" seeded_table "''u1''" stdlib "''month''"]
    seeded_month_query seeded_breakdown [of "''month''"] m
  have "sum_list (map Percentage
        [\<lparr>Category_cb = ''food'', Amount_cb = 50, Percentage = 100, Count = 1, Color = []\<rparr>])
      = 100"
    by metis
  then show ?thesis
    by (simp add: seeded_summary cancelling_summary seeded_breakdown)
qed

section \<open>The financial summary of the example\<close>

lemma mset_three:
  assumes "mset xs = {#a, b, c#}"
  shows "xs = [a, b, c] \<or> xs = [a, c, b] \<or> xs = [b, a, c] \<or> xs = [b, c, a]
         \<or> xs = [c, a, b] \<or> xs = [c, b, a]"
proof -
  from assms have "size (mset xs) = 3" by simp
  then have "length xs = 3" by simp
  then obtain x y z where xs: "xs = [x, y, z]"
    by (cases xs; cases "tl xs"; cases "tl (tl xs)") auto
  with assms have "{#x, y, z#} = {#a, b, c#}" by simp
  then show ?thesis unfolding xs
    by (auto simp: add_eq_conv_ex)
qed

text \<open>
  C6, as the code has it. When the query of the user's partition returns the three
  transactions of the example, in whatever order, \<open>GetFinancialSummary\<close> returns the income
  2000, the balance 1920, the savings rate 96 and one category, food, with the amount 80,
  which is 100 percent of the expenses, in 2 transactions. The total expense 80 is
  returned negated: \<open>MonthlyExpenses\<close> is -80.
\<close>

theorem GetFinancialSummary_example:
  assumes "GetTransactionsByUser tbl ''u1'' 1000 None = Inr (txs, lek)"
    and "mset (map (\<lambda>t. (Type t, Category t, Amount t)) txs)
         = {#(''expense'', ''food'', - 50), (''income'', ''salary'', 2000),
             (''expense'', ''food'', - 30)#}"
  shows "GetFinancialSummary now tbl ''u1''
     = Inr \<lparr>TotalBalance = 1920, MonthlyIncome = 2000, MonthlyExpenses = - 80,
            AvailableMoney = 1920, SavingsRate = 96,
            CategoryBreakdown = [\<lparr>Category_cb = ''food'', Amount_cb = 80, Percentage = 100,
                                  Count = 2, Color = []\<rparr>],
            MonthlyTrend = 0, Timestamp = now\<rparr>"
proof -
  from assms(2) have "length txs = 3"
    using size_mset [of "map (\<lambda>t. (Type t, Category t, Amount t)) txs"] by simp
  then obtain x y z where txs: "txs = [x, y, z]"
    by (cases txs; cases "tl txs"; cases "tl (tl txs)") auto
  from mset_three [OF assms(2)] txs
  have "foldl summary_step (0, 0, []) txs
      = (2000, 80, [(''food'', \<lparr>Category_cb = ''food'', Amount_cb = 80, Percentage = 0,
                                  Count = 2, Color = []\<rparr>)])"
    by (auto simp: summary_step_def add_expense_def TransactionTypeIncome_def
        TransactionTypeExpense_def)
  with assms(1) show ?thesis
    by (simp add: GetFinancialSummary_def fdiv_def)
qed

theorem GetFinancialSummary_example_witness:
  "GetTransactionsByUser seeded_table ''u1'' 1000 None
     = Inr ([seed_keys ''2024-02-01'' tx_food_feb, seed_keys ''2024-01-20'' tx_salary_jan,
             seed_keys ''2024-01-15'' tx_food_jan], None)
   \<and> GetFinancialSummary (utc 0) seeded_table ''u1''
     = Inr \<lparr>TotalBalance = 1920, MonthlyIncome = 2000, MonthlyExpenses = - 80,
            AvailableMoney = 1920, SavingsRate = 96,
            CategoryBreakdown = [\<lparr>Category_cb = ''food'', Amount_cb = 80, Percentage = 100,
                                  Count = 2, Color = []\<rparr>],
            MonthlyTrend = 0, Timestamp = utc 0\<rparr>"
proof -
  have "mset (map (\<lambda>t. (Type t, Category t, Amount t))
          [seed_keys ''2024-02-01'' tx_food_feb, seed_keys ''2024-01-20'' tx_salary_jan,
           seed_keys ''2024-01-15'' tx_food_jan])
      = {#(''expense'', ''food'', - 50), (''income'', ''salary'', 2000),
          (''expense'', ''food'', - 30)#}"
    by (simp add: seed_keys_def tx_food_jan_def tx_salary_jan_def tx_food_feb_def new_tx_def)
  from GetFinancialSummary_example [OF seeded_user_query this, of "utc 0"] seeded_user_query
  show ?thesis by simp
qed

text \<open>
  The claim as written fails on the expense: for the seeded table of the example the
  returned \<open>MonthlyExpenses\<close> is -80, not 80.
\<close>

theorem GetFinancialSummary_example_expense_negative:
  "map_sum id MonthlyExpenses (GetFinancialSummary (utc 0) seeded_table ''u1'') = Inr (- 80)
   \<and> map_sum id MonthlyExpenses (GetFinancialSummary (utc 0) seeded_table ''u1'') \<noteq> Inr 80"
  by (simp add: seeded_summary)

section \<open>Limits of the list operations\<close>

lemma int32_le:
  assumes "0 < l"
  shows "int32 l \<le> l"
proof -
  have "(l + 2147483648) mod 4294967296 \<le> l + 2147483648"
    using assms by (intro zmod_le_nonneg_dividend) simp
  then show ?thesis by (simp add: int32_def)
qed

lemma Query_limit:
  assumes "Query tbl q = Inr (items, lek)" and "Limit q = Some n"
  shows "1 \<le> n \<and> int (length items) \<le> n"
  using assms by (auto simp: Query_def Let_def split: if_splits)

lemma length_unmarshal_all: "length (unmarshal_all items) \<le> length items"
  by (induction items) (auto simp: unmarshal_all_def split: option.splits)

lemma GetTransactionsByUser_limit:
  assumes "GetTransactionsByUser tbl userID limit lastKey = Inr (txs, lek)"
  shows "1 \<le> int32 limit \<and> int (length txs) \<le> int32 limit"
proof -
  from assms obtain items where
    q: "Query tbl \<lparr>IndexName = Primary, PartitionKey = ''USER#'' @ userID,
          SortKeyPrefix = Some ''TX#'', ScanIndexForward = False, Limit = Some (int32 limit),
          ExclusiveStartKey = lastKey\<rparr> = Inr (items, lek)"
    and t: "txs = unmarshal_all items"
    by (auto simp: GetTransactionsByUser_def split: sum.splits)
  from Query_limit [OF q] length_unmarshal_all [of items] t show ?thesis by simp
qed

lemma GetTransactionsByMonth_limit:
  assumes "GetTransactionsByMonth tbl userID month limit lastKey = Inr (txs, lek)"
  shows "1 \<le> int32 limit \<and> int (length txs) \<le> int32 limit"
proof -
  from assms obtain items where
    q: "Query tbl \<lparr>IndexName = GSI1, PartitionKey = ''MONTH#'' @ month @ ''#'' @ userID,
          SortKeyPrefix = None, ScanIndexForward = False, Limit = Some (int32 limit),
          ExclusiveStartKey = lastKey\<rparr> = Inr (items, lek)"
    and t: "txs = unmarshal_all items"
    by (auto simp: GetTransactionsByMonth_def split: sum.splits)
  from Query_limit [OF q] length_unmarshal_all [of items] t show ?thesis by simp
qed

lemma GetTransactionsByCategory_limit:
  assumes "GetTransactionsByCategory L tbl userID category limit lastKey = Inr (txs, lek)"
  shows "1 \<le> int32 limit \<and> int (length txs) \<le> int32 limit"
proof -
  from assms obtain items where
    q: "Query tbl \<lparr>IndexName = GSI2,
          PartitionKey = ''CATEGORY#'' @ ToUpper L category @ ''#'' @ userID,
          SortKeyPrefix = None, ScanIndexForward = False, Limit = Some (int32 limit),
          ExclusiveStartKey = lastKey\<rparr> = Inr (items, lek)"
    and t: "txs = unmarshal_all items"
    by (auto simp: GetTransactionsByCategory_def split: sum.splits)
  from Query_limit [OF q] length_unmarshal_all [of items] t show ?thesis by simp
qed

lemma default_limit_bound:
  assumes "int (length txs) \<le> int32 (if limit \<le> 0 then 50 else limit)"
  shows "int (length txs) \<le> (if limit \<le> 0 then 50 else limit)"
proof -
  have "int32 (if limit \<le> 0 then 50 else limit) \<le> (if limit \<le> 0 then 50 else limit)"
    by (rule int32_le) simp
  with assms show ?thesis by linarith
qed

lemma seeded_service_list:
  "Service_GetTransactionsByUser seeded_table ''u1'' 0
     = Inr [seed_keys ''2024-02-01'' tx_food_feb, seed_keys ''2024-01-20'' tx_salary_jan,
            seed_keys ''2024-01-15'' tx_food_jan]"
proof -
  have "GetTransactionsByUser seeded_table ''u1'' 50 None
     = Inr ([seed_keys ''2024-02-01'' tx_food_feb, seed_keys ''2024-01-20'' tx_salary_jan,
             seed_keys ''2024-01-15'' tx_food_jan], None)"
    by (simp add: GetTransactionsByUser_def Query_def matches_def sort_key_of_def key_of_def
        after_start_def int32_def unmarshal_all_def FromDynamoDBItem_def Let_def
        begins_with_def seeded_table_def seed_keys_def tx_food_jan_def tx_salary_jan_def
        tx_food_feb_def new_tx_def)
  then show ?thesis
    by (simp add: Service_GetTransactionsByUser_def instant_def seed_keys_def tx_food_jan_def
        tx_salary_jan_def tx_food_feb_def new_tx_def utc_def)
qed

lemma limits_of_queries:
  "Limit (GetTransactionsByUser_query userID limit lastKey) = Some (int32 limit)"
  "Limit (GetTransactionsByMonth_query userID month limit lastKey) = Some (int32 limit)"
  "Limit (GetTransactionsByCategory_query L userID category limit lastKey) = Some (int32 limit)"
  "Limit (GetTransaction_query userID) = None"
  "Limit (GetBudgetsByMonth_query userID month) = None"
  by (simp_all add: GetTransactionsByUser_query_def GetTransactionsByMonth_query_def
      GetTransactionsByCategory_query_def GetTransaction_query_def GetBudgetsByMonth_query_def)

lemma issued_by_repository:
  "snd (GetTransactionsByUser_on c userID limit lastKey)
     = [GetTransactionsByUser_query userID limit lastKey]"
  "snd (GetTransactionsByMonth_on c userID month limit lastKey)
     = [GetTransactionsByMonth_query userID month limit lastKey]"
  "snd (GetTransactionsByCategory_on L c userID category limit lastKey)
     = [GetTransactionsByCategory_query L userID category limit lastKey]"
  "snd (GetTransaction_on c userID transactionID) = [GetTransaction_query userID]"
  "snd (GetBudgetsByMonth_on c unmarshal userID month) = [GetBudgetsByMonth_query userID month]"
  "snd (GetMonthlyAnalytics_on c userID month)
     = [GetTransactionsByMonth_query userID month 1000 None]"
  by (simp_all add: GetTransactionsByUser_on_def GetTransactionsByMonth_on_def
      GetTransactionsByCategory_on_def GetTransaction_on_def GetBudgetsByMonth_on_def
      GetMonthlyAnalytics_on_def issue_def Let_def split: sum.splits prod.splits option.splits)

lemma int32_1000: "int32 1000 = 1000" "int32 50 = 50"
  by (simp_all add: int32_def)

lemma read_all_pages_limits:
  assumes "read_all_pages c userID lastKey acc issued = Some res"
  shows "\<exists>n. map Limit (snd res) = map Limit issued @ replicate (Suc n) (Some 1000)"
proof (rule read_all_pages.raw_induct
    [where P = "\<lambda>c userID lastKey acc issued res.
       \<exists>n. map Limit (snd res) = map Limit issued @ replicate (Suc n) (Some 1000)",
     OF _ assms], goal_cases)
  case (1 read c userID lastKey acc issued res)
  have q: "snd (GetTransactionsByUser_on c userID 1000 lastKey)
      = [GetTransactionsByUser_query userID 1000 lastKey]"
    by (rule issued_by_repository)
  show ?case
  proof (cases "GetTransactionsByUser_on c userID 1000 lastKey")
    case (Pair a qs')
    with q have qs': "qs' = [GetTransactionsByUser_query userID 1000 lastKey]" by simp
    show ?thesis
    proof (cases a)
      case (Inl e)
      with 1(2) Pair qs' have "map Limit (snd res) = map Limit issued @ replicate (Suc 0) (Some 1000)"
        by (auto simp: limits_of_queries int32_1000)
      then show ?thesis by blast
    next
      case (Inr p)
      obtain txs nextKey where p: "p = (txs, nextKey)" by (cases p)
      show ?thesis
      proof (cases nextKey)
        case None
        with 1(2) Pair qs' Inr p
        have "map Limit (snd res) = map Limit issued @ replicate (Suc 0) (Some 1000)"
          by (auto simp: limits_of_queries int32_1000)
        then show ?thesis by blast
      next
        case (Some k)
        with 1(2) Pair Inr p
        have "read c userID (Some k) (acc @ txs) (issued @ qs') = Some res" by simp
        from 1(1) [OF this] obtain n where
          "map Limit (snd res) = map Limit (issued @ qs') @ replicate (Suc n) (Some 1000)" by blast
        with qs' have "map Limit (snd res) = map Limit issued @ replicate (Suc (Suc n)) (Some 1000)"
          by (simp add: limits_of_queries int32_1000)
        then show ?thesis by blast
      qed
    qed
  qed
qed


text \<open>On the table store the operations written over a client are the ones above.\<close>

lemma on_table:
  "fst (GetTransactionsByUser_on (Query tbl) userID limit lastKey)
     = GetTransactionsByUser tbl userID limit lastKey"
  "fst (GetTransactionsByMonth_on (Query tbl) userID month limit lastKey)
     = GetTransactionsByMonth tbl userID month limit lastKey"
  "fst (GetTransactionsByCategory_on L (Query tbl) userID category limit lastKey)
     = GetTransactionsByCategory L tbl userID category limit lastKey"
  "fst (GetTransaction_on (Query tbl) userID transactionID)
     = GetTransaction tbl userID transactionID"
  by (simp_all add: GetTransactionsByUser_on_def GetTransactionsByUser_def
      GetTransactionsByUser_query_def GetTransactionsByMonth_on_def GetTransactionsByMonth_def
      GetTransactionsByMonth_query_def GetTransactionsByCategory_on_def
      GetTransactionsByCategory_def GetTransactionsByCategory_query_def GetTransaction_on_def
      GetTransaction_def issue_def split: sum.splits prod.splits option.splits)

lemma services_on_table:
  "fst (Service_GetTransactionsByUser_on (Query tbl) userID limit)
     = Service_GetTransactionsByUser tbl userID limit"
  "fst (Service_GetTransactionsByMonth_on (Query tbl) userID month limit)
     = Service_GetTransactionsByMonth tbl userID month limit"
  "fst (Service_GetTransactionsByCategory_on L (Query tbl) userID category limit)
     = Service_GetTransactionsByCategory L tbl userID category limit"
  "fst (Service_GetTransaction_on (Query tbl) userID transactionID)
     = Service_GetTransaction tbl userID transactionID"
  "fst (GetMonthlyAnalytics_on (Query tbl) userID month) = GetMonthlyAnalytics tbl userID month"
  "fst (GetFinancialSummary_on now (Query tbl) userID) = GetFinancialSummary now tbl userID"
  "fst (GetCategoryBreakdown_on L now (Query tbl) userID period)
     = GetCategoryBreakdown L now tbl userID period"
  "fst (GetCategoryOptions_on L (Query tbl) userID) = GetCategoryOptions L tbl userID"
  using on_table [symmetric]
  by (auto simp: Service_GetTransactionsByUser_on_def Service_GetTransactionsByUser_def
      Service_GetTransactionsByMonth_on_def Service_GetTransactionsByMonth_def
      Service_GetTransactionsByCategory_on_def Service_GetTransactionsByCategory_def
      Service_GetTransaction_on_def Service_GetTransaction_def GetMonthlyAnalytics_on_def
      GetMonthlyAnalytics_def GetFinancialSummary_on_def GetFinancialSummary_def
      GetCategoryBreakdown_on_def GetCategoryBreakdown_def GetCategoryOptions_on_def
      GetCategoryOptions_def Let_def split: sum.splits prod.splits option.splits if_splits)


lemma limits_by_transaction_service:
  "map Limit (snd (Service_GetTransactionsByUser_on c userID limit))
     = (if userID = [] then [] else [Some (int32 (if limit \<le> 0 then 50 else limit))])"
  "map Limit (snd (Service_GetTransactionsByMonth_on c userID month limit))
     = (if userID = [] \<or> month = [] then []
        else [Some (int32 (if limit \<le> 0 then 50 else limit))])"
  "map Limit (snd (Service_GetTransactionsByCategory_on L c userID category limit))
     = (if userID = [] \<or> category = [] then []
        else [Some (int32 (if limit \<le> 0 then 50 else limit))])"
  "map Limit (snd (Service_GetTransaction_on c userID transactionID))
     = (if userID = [] \<or> transactionID = [] then [] else [None])"
  using issued_by_repository(1) [of c userID "if limit \<le> 0 then 50 else limit" None]
    issued_by_repository(2) [of c userID month "if limit \<le> 0 then 50 else limit" None]
    issued_by_repository(3) [of L c userID category "if limit \<le> 0 then 50 else limit" None]
    issued_by_repository(4) [of c userID transactionID]
  by (auto simp: Service_GetTransactionsByUser_on_def Service_GetTransactionsByMonth_on_def
      Service_GetTransactionsByCategory_on_def Service_GetTransaction_on_def Let_def
      limits_of_queries split: sum.splits prod.splits)

lemma limits_by_user_reads:
  "map Limit (snd (GetFinancialSummary_on now c userID))
     = (if userID = [] then [] else [Some 1000])"
  "map Limit (snd (GetUniqueCategories_on c userID)) = (if userID = [] then [] else [Some 1000])"
  "map Limit (snd (GetCategoryOptions_on L c userID)) = (if userID = [] then [] else [Some 1000])"
  "map Limit (snd (GetMonthsWithTransactions_on L c userID))
     = (if userID = [] then [] else [Some 1000])"
  "map Limit (snd (BuildFinancialContext_on c post userID)) = [Some 1000]"
  using issued_by_repository(1) [of c userID 1000 None]
  by (auto simp: GetFinancialSummary_on_def GetUniqueCategories_on_def GetCategoryOptions_on_def
      GetMonthsWithTransactions_on_def BuildFinancialContext_on_def Let_def limits_of_queries
      int32_1000 split: sum.splits prod.splits option.splits)

lemma limits_by_month_reads:
  "map Limit (snd (Analytics_GetMonthlyAnalytics_on c userID month))
     = (if userID = [] \<or> month = [] then [] else [Some 1000])"
  "map Limit (snd (GetFinancialInsights_on c post userID month))
     = (if userID = [] \<or> month = [] then [] else [Some 1000])"
  "map Limit (snd (GetCategoryBreakdown_on L now c userID period))
     = (if userID = [] then [] else [Some 1000])"
  using issued_by_repository(6) [of c userID month]
    issued_by_repository(2) [of c userID "Format_2006_01 L now" 1000 None]
  by (auto simp: Analytics_GetMonthlyAnalytics_on_def GetFinancialInsights_on_def
      GetCategoryBreakdown_on_def limits_of_queries int32_1000
      split: sum.splits prod.splits option.splits)

lemma limits_by_budget_service:
  "map Limit (snd (Budget_GetBudgetsByMonth_on c parse unmarshal userID month))
     = (case parse month of Inl e \<Rightarrow> [] | Inr t \<Rightarrow> [None])"
  using issued_by_repository(5) [of c unmarshal userID month]
  by (auto simp: Budget_GetBudgetsByMonth_on_def limits_of_queries split: sum.splits)

lemma limits_by_summary_with_budgets:
  "map Limit (snd (GetFinancialSummaryWithBudgets_on c parse unmarshal post userID month))
     = (if userID = [] \<or> month = [] then []
        else case c (GetTransactionsByMonth_query userID month 1000 None) of
          Inl e \<Rightarrow> [Some 1000]
        | Inr page \<Rightarrow> (case parse month of Inl e \<Rightarrow> [Some 1000] | Inr t \<Rightarrow> [Some 1000, None]))"
proof -
  have "GetTransactionsByMonth_on c userID month 1000 None
      = (case c (GetTransactionsByMonth_query userID month 1000 None) of
           Inl e \<Rightarrow> (Inl (Wrap ''failed to query transactions by month'' e),
                     [GetTransactionsByMonth_query userID month 1000 None])
         | Inr (items, lek) \<Rightarrow> (Inr (unmarshal_all items, lek),
                     [GetTransactionsByMonth_query userID month 1000 None]))"
    by (simp add: GetTransactionsByMonth_on_def issue_def split: sum.splits prod.splits)
  then show ?thesis
    using limits_by_budget_service [of c parse unmarshal userID month]
    by (auto simp: GetFinancialSummaryWithBudgets_on_def limits_of_queries int32_1000
        split: sum.splits prod.splits)
qed

lemma limits_by_budget_utilization:
  assumes "GetBudgetUtilization_on c parse unmarshal post userID month = Some res"
  shows "\<exists>n. map Limit (snd res)
     = (case parse month of
          Inl e \<Rightarrow> []
        | Inr t \<Rightarrow> (case c (GetBudgetsByMonth_query userID month) of
                      Inl e \<Rightarrow> [None]
                    | Inr page \<Rightarrow> None # replicate (Suc n) (Some 1000)))"
proof (cases "parse month")
  case (Inl e)
  with assms show ?thesis
    by (auto simp: GetBudgetUtilization_on_def Budget_GetBudgetsByMonth_on_def)
next
  case (Inr t)
  show ?thesis
  proof (cases "c (GetBudgetsByMonth_query userID month)")
    case (Inl e)
    with assms Inr show ?thesis
      by (auto simp: GetBudgetUtilization_on_def Budget_GetBudgetsByMonth_on_def
          GetBudgetsByMonth_on_def issue_def limits_of_queries)
  next
    case (Inr page)
    obtain items lek where page: "page = (items, lek)" by (cases page)
    from assms \<open>parse month = Inr t\<close> Inr page obtain r where
      r: "read_all_pages c userID None [] [GetBudgetsByMonth_query userID month] = Some r"
      and s: "snd res = snd r"
      by (auto simp: GetBudgetUtilization_on_def Budget_GetBudgetsByMonth_on_def
          GetBudgetsByMonth_on_def issue_def split: option.splits sum.splits prod.splits)
    from read_all_pages_limits [OF r] obtain n where
      "map Limit (snd r) = map Limit [GetBudgetsByMonth_query userID month]
         @ replicate (Suc n) (Some 1000)" by blast
    with s \<open>parse month = Inr t\<close> Inr show ?thesis
      by (auto simp: limits_of_queries)
  qed
qed


lemma service_results_bounded:
  "Service_GetTransactionsByUser tbl userID limit = Inr txs \<Longrightarrow>
     int (length txs) \<le> (if limit \<le> 0 then 50 else limit)"
  "Service_GetTransactionsByMonth tbl userID month limit = Inr txs \<Longrightarrow>
     int (length txs) \<le> (if limit \<le> 0 then 50 else limit)"
  "Service_GetTransactionsByCategory L tbl userID category limit = Inr txs \<Longrightarrow>
     int (length txs) \<le> (if limit \<le> 0 then 50 else limit)"
proof -
  show "int (length txs) \<le> (if limit \<le> 0 then 50 else limit)"
    if "Service_GetTransactionsByUser tbl userID limit = Inr txs"
  proof -
    from that obtain txs' lek where
      "GetTransactionsByUser tbl userID (if limit \<le> 0 then 50 else limit) None = Inr (txs', lek)"
      and "txs = sort_key (\<lambda>t. - instant (Date t)) txs'"
      by (auto simp: Service_GetTransactionsByUser_def Let_def split: if_splits sum.splits)
    with GetTransactionsByUser_limit [of tbl userID "if limit \<le> 0 then 50 else limit" None txs' lek]
    show ?thesis by (intro default_limit_bound) simp
  qed
  show "int (length txs) \<le> (if limit \<le> 0 then 50 else limit)"
    if "Service_GetTransactionsByMonth tbl userID month limit = Inr txs"
  proof -
    from that obtain lek where
      "GetTransactionsByMonth tbl userID month (if limit \<le> 0 then 50 else limit) None
         = Inr (txs, lek)"
      by (auto simp: Service_GetTransactionsByMonth_def Let_def split: if_splits sum.splits)
    with GetTransactionsByMonth_limit
      [of tbl userID month "if limit \<le> 0 then 50 else limit" None txs lek]
    show ?thesis by (intro default_limit_bound) simp
  qed
  show "int (length txs) \<le> (if limit \<le> 0 then 50 else limit)"
    if "Service_GetTransactionsByCategory L tbl userID category limit = Inr txs"
  proof -
    from that obtain lek where
      "GetTransactionsByCategory L tbl userID category (if limit \<le> 0 then 50 else limit) None
         = Inr (txs, lek)"
      by (auto simp: Service_GetTransactionsByCategory_def Let_def split: if_splits sum.splits)
    with GetTransactionsByCategory_limit
      [of L tbl userID category "if limit \<le> 0 then 50 else limit" None txs lek]
    show ?thesis by (intro default_limit_bound) simp
  qed
qed

lemma two_pages_utilization:
  "GetBudgetUtilization_on two_pages parse_any no_budget count_transactions ''u1'' ''2024-01''
     = Some (Inr 1,
         [GetBudgetsByMonth_query ''u1'' ''2024-01'',
          GetTransactionsByUser_query ''u1'' 1000 None,
          GetTransactionsByUser_query ''u1'' 1000 (Some (''USER#u1'', ''TX#2024-01-15#t1''))])"
proof -
  have 2: "read_all_pages two_pages ''u1'' (Some (''USER#u1'', ''TX#2024-01-15#t1'')) acc qs
      = Some (Inr acc, qs @ [GetTransactionsByUser_query ''u1'' 1000
                               (Some (''USER#u1'', ''TX#2024-01-15#t1''))])" for acc qs
    by (subst read_all_pages.simps)
      (simp add: GetTransactionsByUser_on_def issue_def two_pages_def
        GetTransactionsByUser_query_def unmarshal_all_def)
  have 1: "read_all_pages two_pages ''u1'' None [] qs
      = Some (Inr [seed_keys ''2024-01-15'' tx_food_jan],
              qs @ [GetTransactionsByUser_query ''u1'' 1000 None,
                    GetTransactionsByUser_query ''u1'' 1000
                      (Some (''USER#u1'', ''TX#2024-01-15#t1''))])" for qs
    by (subst read_all_pages.simps)
      (simp add: GetTransactionsByUser_on_def issue_def two_pages_def 2
        GetTransactionsByUser_query_def unmarshal_all_def FromDynamoDBItem_def)
  show ?thesis
    by (simp add: GetBudgetUtilization_on_def Budget_GetBudgetsByMonth_on_def
        GetBudgetsByMonth_on_def issue_def parse_any_def 1 count_transactions_def
        two_pages_def GetBudgetsByMonth_query_def no_budget_def)
qed

text \<open>
  On a table whose items have distinct primary keys the reading of the pages comes to an
  end: every page starts behind the last item of the page before it.
\<close>

lemma dropWhile_distinct_key:
  assumes "distinct (map f xs)" "i < length xs"
  shows "dropWhile (\<lambda>x. f x \<noteq> f (xs ! i)) xs = drop i xs"
  using assms
proof (induction xs arbitrary: i)
  case Nil
  then show ?case by simp
next
  case (Cons x xs)
  show ?case
  proof (cases i)
    case 0
    then show ?thesis by simp
  next
    case (Suc j)
    with Cons.prems have "xs ! j \<in> set xs" by simp
    with Cons.prems(1) have "f x \<noteq> f (xs ! j)" by auto
    with Cons Suc show ?thesis by simp
  qed
qed

lemma distinct_keys_directed:
  assumes "distinct (map key_of tbl)"
  shows "distinct (map key_of (rev (sort_key g (filter P tbl))))"
proof -
  from assms have "distinct (map key_of (filter P tbl))" by (rule distinct_map_filter)
  moreover have "mset (map key_of (sort_key g (filter P tbl))) = mset (map key_of (filter P tbl))"
    by simp
  ultimately have "distinct (map key_of (sort_key g (filter P tbl)))"
    by (metis mset_eq_imp_distinct_iff)
  then show ?thesis by (simp add: rev_map [symmetric])
qed

lemma read_all_pages_on_table:
  fixes tbl userID
  defines "D \<equiv> rev (sort_key (sort_key_of Primary)
      (filter (matches (GetTransactionsByUser_query userID 1000 None)) tbl))"
  assumes d: "distinct (map key_of tbl)"
    and s: "after_start lastKey D = drop m D"
  shows "read_all_pages (Query tbl) userID lastKey acc issued \<noteq> None"
  using s
proof (induction "length D - m" arbitrary: m lastKey acc issued rule: less_induct)
  case less
  have dD: "distinct (map key_of D)" unfolding D_def using d by (rule distinct_keys_directed)
  have m: "matches (GetTransactionsByUser_query userID 1000 lastKey)
      = matches (GetTransactionsByUser_query userID 1000 None)"
    by (rule ext) (simp add: matches_def GetTransactionsByUser_query_def)
  have q: "Query tbl (GetTransactionsByUser_query userID 1000 lastKey)
      = (if length (drop m D) < 1000 then Inr (drop m D, None)
         else Inr (take 1000 (drop m D), Some (key_of (last (take 1000 (drop m D))))))"
    using less.prems m
    by (simp add: Query_def Let_def D_def int32_1000 GetTransactionsByUser_query_def matches_def)
  show ?case
  proof (cases "length (drop m D) < 1000")
    case True
    then show ?thesis
      by (subst read_all_pages.simps) (simp add: GetTransactionsByUser_on_def issue_def q)
  next
    case False
    then have len: "m + 1000 \<le> length D" by simp
    then have "take 1000 (drop m D) \<noteq> []" by auto
    then have "last (take 1000 (drop m D)) = take 1000 (drop m D) ! 999"
      using len by (simp add: last_conv_nth)
    also have "\<dots> = D ! (m + 999)" using len by simp
    finally have l: "last (take 1000 (drop m D)) = D ! (m + 999)" .
    have "after_start (Some (key_of (D ! (m + 999)))) D = drop (m + 1000) D"
      using dropWhile_distinct_key [OF dD, of "m + 999"] len
      by (simp add: after_start_def add.commute)
    moreover have "length D - (m + 1000) < length D - m" using len by simp
    ultimately have "read_all_pages (Query tbl) userID (Some (key_of (D ! (m + 999))))
        acc' issued' \<noteq> None" for acc' issued'
      using less.hyps [of "m + 1000"] by simp
    with False show ?thesis
      by (subst read_all_pages.simps) (simp add: GetTransactionsByUser_on_def issue_def q l)
  qed
qed

lemma GetBudgetUtilization_on_table:
  assumes "distinct (map key_of tbl)"
  shows "GetBudgetUtilization_on (Query tbl) parse unmarshal post userID month \<noteq> None"
proof (cases "Budget_GetBudgetsByMonth_on (Query tbl) parse unmarshal userID month")
  case (Pair a qs)
  have "read_all_pages (Query tbl) userID None [] qs \<noteq> None"
    using assms by (rule read_all_pages_on_table [where m = 0]) (simp add: after_start_def)
  then obtain res where "read_all_pages (Query tbl) userID None [] qs = Some res" by blast
  with Pair show ?thesis
    by (auto simp: GetBudgetUtilization_on_def split: prod.splits sum.splits)
qed

text \<open>
  C8, as the code has it. Whatever the store answers, the queries an operation of the service
  layer issues carry these limits. The three list operations of the transaction service
  issue one query whose limit is the caller's, or 50 when the caller's is not positive (not
  1000). The reads of the analytics service and of the AI service issue one query with the
  fixed limit 1000. The queries for one transaction by id and for the budgets of a month carry
  no limit, so \<open>GetBudgetsByMonth\<close> and, behind its read of the month,
  \<open>GetFinancialSummaryWithBudgets\<close> issue an unbounded query. \<open>GetBudgetUtilization\<close>, when
  it returns, has issued the unbounded budget query and then one query of limit 1000 for every
  page of the user's transactions, until the store returns no key to continue from: the
  number of items it fetches per call is not bounded (on a table with distinct primary keys
  it does return). The store refuses a limit below 1 and
  answers a query that has a limit with at most that many items, so a list operation of the
  transaction service that succeeds returns at most the caller's limit, 50 by default.
\<close>

theorem service_layer_query_limits:
  "map Limit (snd (Service_GetTransactionsByUser_on c userID limit))
     = (if userID = [] then [] else [Some (int32 (if limit \<le> 0 then 50 else limit))])
   \<and> map Limit (snd (Service_GetTransactionsByMonth_on c userID month limit))
     = (if userID = [] \<or> month = [] then []
        else [Some (int32 (if limit \<le> 0 then 50 else limit))])
   \<and> map Limit (snd (Service_GetTransactionsByCategory_on L c userID category limit))
     = (if userID = [] \<or> category = [] then []
        else [Some (int32 (if limit \<le> 0 then 50 else limit))])
   \<and> map Limit (snd (Service_GetTransaction_on c userID transactionID))
     = (if userID = [] \<or> transactionID = [] then [] else [None])
   \<and> map Limit (snd (Analytics_GetMonthlyAnalytics_on c userID month))
     = (if userID = [] \<or> month = [] then [] else [Some 1000])
   \<and> map Limit (snd (GetFinancialInsights_on c insights userID month))
     = (if userID = [] \<or> month = [] then [] else [Some 1000])
   \<and> map Limit (snd (GetFinancialSummary_on now c userID))
     = (if userID = [] then [] else [Some 1000])
   \<and> map Limit (snd (GetCategoryBreakdown_on L now c userID period))
     = (if userID = [] then [] else [Some 1000])
   \<and> map Limit (snd (GetUniqueCategories_on c userID)) = (if userID = [] then [] else [Some 1000])
   \<and> map Limit (snd (GetCategoryOptions_on L c userID)) = (if userID = [] then [] else [Some 1000])
   \<and> map Limit (snd (GetMonthsWithTransactions_on L c userID))
     = (if userID = [] then [] else [Some 1000])
   \<and> map Limit (snd (BuildFinancialContext_on c describe userID)) = [Some 1000]
   \<and> map Limit (snd (Budget_GetBudgetsByMonth_on c parse unmarshal userID month))
     = (case parse month of Inl e \<Rightarrow> [] | Inr t \<Rightarrow> [None])
   \<and> map Limit (snd (GetFinancialSummaryWithBudgets_on c parse unmarshal join userID month))
     = (if userID = [] \<or> month = [] then []
        else case c (GetTransactionsByMonth_query userID month 1000 None) of
          Inl e \<Rightarrow> [Some 1000]
        | Inr page \<Rightarrow> (case parse month of Inl e \<Rightarrow> [Some 1000] | Inr t \<Rightarrow> [Some 1000, None]))
   \<and> (\<forall>res. GetBudgetUtilization_on c parse unmarshal utilization userID month = Some res \<longrightarrow>
         (\<exists>n. map Limit (snd res)
            = (case parse month of
                 Inl e \<Rightarrow> []
               | Inr t \<Rightarrow> (case c (GetBudgetsByMonth_query userID month) of
                             Inl e \<Rightarrow> [None]
                           | Inr page \<Rightarrow> None # replicate (Suc n) (Some 1000)))))
   \<and> (distinct (map key_of tbl) \<longrightarrow>
         GetBudgetUtilization_on (Query tbl) parse unmarshal utilization userID month \<noteq> None)
   \<and> (\<forall>items lek n. Query tbl q = Inr (items, lek) \<longrightarrow> Limit q = Some n \<longrightarrow>
         1 \<le> n \<and> int (length items) \<le> n)
   \<and> (\<forall>txs. Service_GetTransactionsByUser tbl userID limit = Inr txs \<longrightarrow>
         int (length txs) \<le> (if limit \<le> 0 then 50 else limit))
   \<and> (\<forall>txs. Service_GetTransactionsByMonth tbl userID month limit = Inr txs \<longrightarrow>
         int (length txs) \<le> (if limit \<le> 0 then 50 else limit))
   \<and> (\<forall>txs. Service_GetTransactionsByCategory L tbl userID category limit = Inr txs \<longrightarrow>
         int (length txs) \<le> (if limit \<le> 0 then 50 else limit))"
  using limits_by_budget_utilization [of c parse unmarshal utilization userID month]
    Query_limit [of tbl q]
    GetBudgetUtilization_on_table [of tbl parse unmarshal utilization userID month]
  by (simp add: service_results_bounded limits_by_transaction_service limits_by_user_reads limits_by_month_reads
      limits_by_budget_service limits_by_summary_with_budgets)

theorem service_layer_query_limits_witness:
  "map Limit (snd (Service_GetTransactionsByUser_on (Query seeded_table) ''u1'' 0)) = [Some 50]
   \<and> Service_GetTransactionsByUser seeded_table ''u1'' 0
     = Inr [seed_keys ''2024-02-01'' tx_food_feb, seed_keys ''2024-01-20'' tx_salary_jan,
            seed_keys ''2024-01-15'' tx_food_jan]
   \<and> map Limit (snd (GetFinancialSummary_on (utc 0) (Query seeded_table) ''u1'')) = [Some 1000]
   \<and> map Limit (snd (Budget_GetBudgetsByMonth_on (Query seeded_table) parse_any no_budget
        ''u1'' ''2024-01'')) = [None]
   \<and> GetBudgetUtilization_on two_pages parse_any no_budget count_transactions ''u1'' ''2024-01''
     = Some (Inr 1,
         [GetBudgetsByMonth_query ''u1'' ''2024-01'',
          GetTransactionsByUser_query ''u1'' 1000 None,
          GetTransactionsByUser_query ''u1'' 1000 (Some (''USER#u1'', ''TX#2024-01-15#t1''))])
   \<and> map Limit
        [GetBudgetsByMonth_query ''u1'' ''2024-01'',
         GetTransactionsByUser_query ''u1'' 1000 None,
         GetTransactionsByUser_query ''u1'' 1000 (Some (''USER#u1'', ''TX#2024-01-15#t1''))]
     = [None, Some 1000, Some 1000]
   \<and> GetBudgetUtilization_on (Query seeded_table) parse_any no_budget count_transactions
        ''u1'' ''2024-01'' \<noteq> None"
proof -
  have keys: "distinct (map key_of seeded_table)"
    by (simp add: seeded_table_def seed_keys_def key_of_def tx_food_jan_def tx_salary_jan_def
        tx_food_feb_def new_tx_def)
  note t = service_layer_query_limits
    [where c = "Query seeded_table" and userID = "''u1''" and limit = 0 and parse = parse_any
       and unmarshal = no_budget and month = "''2024-01''" and now = "utc 0" and L = stdlib
       and category = "''food''" and transactionID = "''t1''" and period = "''month''"
       and insights = "\<lambda>a. ()" and describe = length and join = "\<lambda>ts bs. length ts"
       and utilization = count_transactions and tbl = seeded_table
       and q = "GetTransactionsByUser_query ''u1'' 1000 None"]
  from t have "map Limit (snd (Service_GetTransactionsByUser_on (Query seeded_table) ''u1'' 0))
      = [Some 50]"
    and "map Limit (snd (GetFinancialSummary_on (utc 0) (Query seeded_table) ''u1''))
      = [Some 1000]"
    and "map Limit (snd (Budget_GetBudgetsByMonth_on (Query seeded_table) parse_any no_budget
        ''u1'' ''2024-01'')) = [None]"
    and "GetBudgetUtilization_on (Query seeded_table) parse_any no_budget count_transactions
        ''u1'' ''2024-01'' \<noteq> None"
    using keys by (simp_all add: int32_1000 parse_any_def)
  then show ?thesis
    by (simp add: two_pages_utilization seeded_service_list limits_of_queries int32_1000)
qed

lemma table51_items:
  assumes "i \<in> set table51"
  shows "\<exists>t. i = TxItem t \<and> PK t = ''USER#u1'' \<and> begins_with (SK t) ''TX#''"
  using assms by (auto simp: table51_def seed_keys_def new_tx_def begins_with_def)

lemma length_unmarshal_all_TxItems:
  assumes "\<And>i. i \<in> set items \<Longrightarrow> \<exists>t. i = TxItem t"
  shows "length (unmarshal_all items) = length items"
  using assms
proof (induction items)
  case Nil
  then show ?case by (simp add: unmarshal_all_def)
next
  case (Cons i items)
  from Cons.prems [of i] obtain t where "i = TxItem t" by auto
  moreover from Cons have "length (unmarshal_all items) = length items" by simp
  ultimately show ?case by (simp add: unmarshal_all_def FromDynamoDBItem_def)
qed

text \<open>
  The claim as written fails. Of the 51 transactions of user \<open>u1\<close> in the table, the list
  operation called without a positive limit asks for 50 and returns 50, where a default of
  1000 would return all 51; and the queries of \<open>GetTransaction\<close> and of the budget service's
  \<open>GetBudgetsByMonth\<close> are issued with no limit.
\<close>

theorem default_limit_is_50:
  "length table51 = 51
   \<and> map_sum id length (Service_GetTransactionsByUser table51 ''u1'' 0) = Inr 50
   \<and> map_sum id length (Service_GetTransactionsByUser table51 ''u1'' 1000) = Inr 51
   \<and> map Limit (snd (Service_GetTransactionsByUser_on (Query table51) ''u1'' 0)) = [Some 50]
   \<and> map Limit (snd (Service_GetTransaction_on (Query table51) ''u1'' ''t1'')) = [None]
   \<and> map Limit (snd (Budget_GetBudgetsByMonth_on (Query table51) parse_any no_budget
        ''u1'' ''2024-01'')) = [None]"
proof -
  let ?q = "\<lambda>n. \<lparr>IndexName = Primary, PartitionKey = ''USER#u1'', SortKeyPrefix = Some ''TX#'',
         ScanIndexForward = False, Limit = Some n, ExclusiveStartKey = None\<rparr>"
  let ?all = "rev (sort_key (sort_key_of Primary) table51)"
  have len: "length table51 = 51" by (simp add: table51_def)
  have "matches (?q n) i" if "i \<in> set table51" for i n
    using table51_items [OF that] by (auto simp: matches_def key_of_def)
  then have f: "filter (matches (?q n)) table51 = table51" for n
    by (simp add: filter_id_conv)
  have q50: "Query table51 (?q 50) = Inr (take 50 ?all, Some (key_of (last (take 50 ?all))))"
    by (simp add: Query_def f after_start_def len Let_def)
  have q1000: "Query table51 (?q 1000) = Inr (?all, None)"
    by (simp add: Query_def f after_start_def len Let_def)
  have tx: "\<exists>t. i = TxItem t" if "i \<in> set ?all" for i
    using that table51_items [of i] by auto
  have "\<exists>t. i = TxItem t" if "i \<in> set (take 50 ?all)" for i
    using tx [of i] that by (auto dest: in_set_takeD)
  then have "length (unmarshal_all (take 50 ?all)) = 50"
    by (simp add: length_unmarshal_all_TxItems len)
  moreover have "length (unmarshal_all ?all) = length ?all"
    using tx by (intro length_unmarshal_all_TxItems) blast
  ultimately show ?thesis
    by (simp add: Service_GetTransactionsByUser_def GetTransactionsByUser_def int32_def
        q50 q1000 len limits_by_transaction_service limits_by_budget_service parse_any_def)
qed

section \<open>\<open>UpdateTransaction\<close>\<close>

lemma get_item_put_item_other:
  assumes "k \<noteq> key_of i"
  shows "get_item (put_item tbl i) k = get_item tbl k"
proof (cases "get_item tbl (key_of i)")
  case None
  have "find (\<lambda>j. key_of j = k) (tbl @ [i]) = find (\<lambda>j. key_of j = k) tbl"
    using assms by (induction tbl) auto
  with None show ?thesis by (simp add: put_item_def get_item_def)
next
  case (Some old)
  have "find (\<lambda>j. key_of j = k) (map (\<lambda>j. if key_of j = key_of i then i else j) tbl)
      = find (\<lambda>j. key_of j = k) tbl"
    using assms by (induction tbl) auto
  with Some show ?thesis by (simp add: put_item_def get_item_def)
qed

text \<open>
  In a table whose transaction items all carry generated sort keys the update of a valid
  transaction ends at the read: the record is not found, and nothing is written.
\<close>

lemma UpdateTransaction_generated_table:
  assumes "generated_table L tbl" and "Validate t = None"
  shows "UpdateTransaction L now tbl t
     = Inl (Wrap ''transaction not found'' (Err ''transaction not found''))"
  using assms GetTransaction_generated_table [OF assms(1), of "UserID t" "ID t"]
  by (simp add: UpdateTransaction_def UpdateTransaction_read_def)

lemma seeded_GetTransaction:
  "GetTransaction seeded_table ''u1'' ''t1'' = Inr (seed_keys ''2024-01-15'' tx_food_jan)"
  by (simp add: GetTransaction_def GetTransaction_query_def Query_def matches_def
      sort_key_of_def key_of_def after_start_def unmarshal_all_def FromDynamoDBItem_def
      Let_def begins_with_def seeded_table_def seed_keys_def tx_food_jan_def
      tx_salary_jan_def tx_food_feb_def new_tx_def)

lemma Validate_example: "Validate (tx_food_jan\<lparr>Amount := - 60\<rparr>) = None"
  "Validate (tx_food_jan_v1\<lparr>Amount := - 60\<rparr>) = None"
  by (simp_all add: Validate_def tx_food_jan_v1_def tx_food_jan_def new_tx_def IsZero_def
      utc_def)

text \<open>
  C2. The transaction \<open>t1\<close> of user \<open>u1\<close> is created at version 1. The update of its amount
  then answers "transaction not found": the read of the current record looks among the
  sort keys that begin with \<open>TX#\<close> and the record is stored under \<open>TRANSACTION#...\<close>, so no
  version 2 is written. For the seeded table, where the read does find the record, the
  conditional write goes to the regenerated key \<open>TRANSACTION#1705276800#t1\<close>, under which
  there is no item, and the update answers "modified by another process" although nothing
  else wrote to the table.
\<close>

theorem UpdateTransaction_never_writes:
  "CreateTransaction stdlib [] tx_food_jan_v1 = Inr [TxItem (GenerateKeys stdlib tx_food_jan_v1)]
   \<and> Version (GenerateKeys stdlib tx_food_jan_v1) = 1
   \<and> UpdateTransaction stdlib (utc 1705300000) [TxItem (GenerateKeys stdlib tx_food_jan_v1)]
        (tx_food_jan_v1\<lparr>Amount := - 60\<rparr>)
      = Inl (Wrap ''transaction not found'' (Err ''transaction not found''))
   \<and> UpdateTransaction stdlib (utc 1705300000) seeded_table (tx_food_jan\<lparr>Amount := - 60\<rparr>)
      = Inl (Err ''transaction was modified by another process, please retry'')"
proof -
  have "generated_table stdlib [TxItem (GenerateKeys stdlib tx_food_jan_v1)]"
    by (simp add: generated_table_def GenerateKeys_def)
  from UpdateTransaction_generated_table [OF this Validate_example(2)]
  have "UpdateTransaction stdlib (utc 1705300000) [TxItem (GenerateKeys stdlib tx_food_jan_v1)]
        (tx_food_jan_v1\<lparr>Amount := - 60\<rparr>)
      = Inl (Wrap ''transaction not found'' (Err ''transaction not found''))" .
  moreover have "CreateTransaction stdlib [] tx_food_jan_v1
      = Inr [TxItem (GenerateKeys stdlib tx_food_jan_v1)]"
    by (simp add: CreateTransaction_def PutItem_def ToDynamoDBItem_def get_item_def
        put_item_def)
  moreover have "Version (GenerateKeys stdlib tx_food_jan_v1) = 1"
    by (simp add: GenerateKeys_fields tx_food_jan_v1_def)
  moreover have "UpdateTransaction stdlib (utc 1705300000) seeded_table
        (tx_food_jan\<lparr>Amount := - 60\<rparr>)
      = Inl (Err ''transaction was modified by another process, please retry'')"
  proof -
    have u: "UserID (tx_food_jan\<lparr>Amount := - 60\<rparr>) = ''u1''"
      "ID (tx_food_jan\<lparr>Amount := - 60\<rparr>) = ''t1''"
      by (simp_all add: tx_food_jan_def new_tx_def)
    have "get_item seeded_table (p, ''TRANSACTION#'' @ s) = None" for p s
      by (simp add: get_item_def key_of_def seeded_table_def seed_keys_def)
    then show ?thesis
      by (simp add: UpdateTransaction_def UpdateTransaction_read_def Validate_example u
          seeded_GetTransaction UpdateTransaction_write_def PutItem_def ToDynamoDBItem_def
          key_of_def GenerateKeys_def)
  qed
  ultimately show ?thesis by simp
qed



section \<open>Batch writes\<close>

lemma chunks_concat: "0 < n \<Longrightarrow> concat (chunks n xs) = xs"
proof (induction n xs rule: chunks.induct)
  case (1 n xs)
  then show ?case by (subst chunks.simps) auto
qed

lemma chunks_member: "c \<in> set (chunks n xs) \<Longrightarrow> c \<noteq> [] \<and> length c \<le> n"
proof (induction n xs rule: chunks.induct)
  case (1 n xs)
  from "1.prems" have *: "n \<noteq> 0" "xs \<noteq> []" "c = take n xs \<or> c \<in> set (chunks n (drop n xs))"
    by (subst (asm) chunks.simps; simp split: if_splits)+
  with "1.IH" show ?case by auto
qed

lemma chunks_full: "Suc k < length (chunks n xs) \<Longrightarrow> length (chunks n xs ! k) = n"
proof (induction n xs arbitrary: k rule: chunks.induct)
  case (1 n xs)
  from "1.prems" have *: "n \<noteq> 0" "xs \<noteq> []"
    by (subst (asm) chunks.simps; simp split: if_splits)+
  then have c: "chunks n xs = take n xs # chunks n (drop n xs)"
    by (subst chunks.simps) simp
  show ?case
  proof (cases k)
    case 0
    with "1.prems" c have "chunks n (drop n xs) \<noteq> []" by auto
    then have "drop n xs \<noteq> []" by (subst (asm) chunks.simps) (simp split: if_splits)
    with 0 c show ?thesis by simp
  next
    case (Suc j)
    with "1.prems" c have "Suc j < length (chunks n (drop n xs))" by simp
    with "1.IH" [OF _ this] * Suc c show ?thesis by simp
  qed
qed

lemma batch_loop_chunks:
  "batch_loop L clock B txs i st = submit_chunks L clock B i st (chunks batchSize (drop i txs))"
proof (induction L clock B txs i st rule: batch_loop.induct)
  case (1 L clock B txs i st)
  show ?case
  proof (cases "i < length txs")
    case False
    then show ?thesis
      by (subst batch_loop.simps, subst chunks.simps) simp
  next
    case True
    define end' where "end' = (if i + batchSize > length txs then length txs else i + batchSize)"
    define c where "c = take (end' - i) (drop i txs)"
    have c': "c = take batchSize (drop i txs)"
      using True by (auto simp: c_def end'_def)
    have e: "end' = i + length c"
      using True by (auto simp: c_def end'_def)
    have ch: "chunks batchSize (drop i txs) = c # chunks batchSize (drop (i + batchSize) txs)"
      using True by (subst chunks.simps) (simp add: c' batchSize_def add.commute)
    have r: "submit_chunks L clock B (i + length c) st1 (chunks batchSize (drop (i + batchSize) txs))
        = submit_chunks L clock B (i + batchSize) st1 (chunks batchSize (drop (i + batchSize) txs))"
      for st1
    proof (cases "length c = batchSize")
      case True
      then show ?thesis by simp
    next
      case False
      then have "drop (i + batchSize) txs = []" by (simp add: c' min_def split: if_splits)
      then show ?thesis by (subst (1 2) chunks.simps) simp
    qed
    have ih: "batch_loop L clock B txs (i + batchSize) st1
        = submit_chunks L clock B (i + batchSize) st1 (chunks batchSize (drop (i + batchSize) txs))"
      if "batchWriteTransactions L clock B st c = (None, st1)" for st1
      using "1.IH" [OF True end'_def c_def _ refl, of st1] that by simp
    have "batch_loop L clock B txs i st
      = (case batchWriteTransactions L clock B st c of
           (Some e, st1) \<Rightarrow>
             (Some (Wrap (''failed to write batch '' @ show_nat i @ ''-'' @ show_nat end') e), st1)
         | (None, st1) \<Rightarrow> batch_loop L clock B txs (i + batchSize) st1)"
      using True by (subst batch_loop.simps) (simp only: if_True Let_def end'_def [symmetric] c_def [symmetric])
    also have "\<dots> = submit_chunks L clock B i st (c # chunks batchSize (drop (i + batchSize) txs))"
    proof (cases "batchWriteTransactions L clock B st c")
      case (Pair a st1)
      then show ?thesis
        by (cases a) (simp_all add: e ih r del: append.simps)
    qed
    finally show ?thesis by (simp only: ch)
  qed
qed

lemma BatchCreateTransactions_refines:
  "BatchCreateTransactions L clock B st txs = submit_chunks L clock B 0 st (chunks batchSize txs)"
  by (simp add: BatchCreateTransactions_def batch_loop_chunks)


lemma retry_loop_unrolled:
  "retry_loop B 0 st input =
     (let n = length (calls st);
          u1 = filter (leaves B n) input;
          u2 = filter (leaves B (n + 1)) u1;
          u3 = filter (leaves B (n + 2)) u2;
          e = Some (Wrap ''failed to batch write items'' ProvisionedThroughputExceededException)
      in if fails B n then (e, st\<lparr>calls := calls st @ [input]\<rparr>)
         else if u1 = [] then
           (None, st\<lparr>calls := calls st @ [input],
                     table := foldl put_item (table st) (processed B n [input])\<rparr>)
         else if fails B (n + 1) then
           (e, st\<lparr>calls := calls st @ [input, u1], slept := slept st @ [100],
                  table := foldl put_item (table st) (processed B n [input, u1])\<rparr>)
         else if u2 = [] then
           (None, st\<lparr>calls := calls st @ [input, u1], slept := slept st @ [100],
                     table := foldl put_item (table st) (processed B n [input, u1])\<rparr>)
         else if fails B (n + 2) then
           (e, st\<lparr>calls := calls st @ [input, u1, u2], slept := slept st @ [100, 200],
                  table := foldl put_item (table st) (processed B n [input, u1, u2])\<rparr>)
         else if u3 = [] then
           (None, st\<lparr>calls := calls st @ [input, u1, u2], slept := slept st @ [100, 200],
                     table := foldl put_item (table st) (processed B n [input, u1, u2])\<rparr>)
         else
           (Some (Err ''failed to process all items after 3 retries''),
            st\<lparr>calls := calls st @ [input, u1, u2], slept := slept st @ [100, 200],
                 table := foldl put_item (table st) (processed B n [input, u1, u2])\<rparr>))"
  by (simp add: retry_loop.simps [of B 0] retry_loop.simps [of B "Suc 0"]
      retry_loop.simps [of B "Suc (Suc 0)"] BatchWriteItem_def Let_def maxRetries_def)


lemma get_item_None_iff: "get_item tbl k = None \<longleftrightarrow> k \<notin> key_of ` set tbl"
  by (auto simp: get_item_def find_None_iff)

lemma get_item_put_item_cases:
  "get_item (put_item tbl i) k = (if k = key_of i then Some i else get_item tbl k)"
  by (simp add: get_item_put_item get_item_put_item_other)

lemma find_append_cases:
  "find P (xs @ ys) = (case find P xs of None \<Rightarrow> find P ys | Some x \<Rightarrow> Some x)"
  by (induction xs) auto

lemma get_item_foldl_put_item:
  "get_item (foldl put_item tbl items) k
     = (case find (\<lambda>i. key_of i = k) (rev items) of
          Some i \<Rightarrow> Some i
        | None \<Rightarrow> get_item tbl k)"
proof (induction items arbitrary: tbl)
  case Nil
  show ?case by simp
next
  case (Cons i items)
  show ?case
    by (cases "find (\<lambda>i. key_of i = k) (rev items)")
      (auto simp: Cons.IH find_append_cases get_item_put_item_cases)
qed

lemma get_item_foldl_put_item_kept:
  "get_item tbl k \<noteq> None \<Longrightarrow> get_item (foldl put_item tbl items) k \<noteq> None"
  by (simp add: get_item_foldl_put_item split: option.splits)

lemma find_SomeD: "find P xs = Some x \<Longrightarrow> x \<in> set xs \<and> P x"
  by (induction xs) (auto split: if_splits)

lemma find_unique:
  assumes "i \<in> set xs" "P i" "\<And>j. j \<in> set xs \<Longrightarrow> P j \<Longrightarrow> j = i"
  shows "find P xs = Some i"
proof (cases "find P xs")
  case None
  with assms(1,2) show ?thesis by (auto simp: find_None_iff)
next
  case (Some j)
  then have "j \<in> set xs" "P j" by (auto simp: find_Some_iff)
  with assms(3) Some show ?thesis by auto
qed

lemma get_item_foldl_put_item_distinct:
  assumes "i \<in> set items" "\<And>j. j \<in> set items \<Longrightarrow> key_of j = key_of i \<Longrightarrow> j = i"
  shows "get_item (foldl put_item tbl items) (key_of i) = Some i"
proof -
  have "find (\<lambda>j. key_of j = key_of i) (rev items) = Some i"
    using assms by (intro find_unique) auto
  then show ?thesis by (simp add: get_item_foldl_put_item)
qed

lemma length_write_requests: "length (write_requests L clock k txs) = length txs"
  by (induction txs arbitrary: k) auto

lemma key_of_request:
  "key_of (ToDynamoDBItem L ((GenerateKeys L tx)\<lparr>CreatedAt := a, UpdatedAt := b\<rparr>))
     = key_of (ToDynamoDBItem L tx)"
  by (simp add: key_of_def ToDynamoDBItem_def GenerateKeys_def)

lemma keys_of_write_requests:
  "map key_of (write_requests L clock k txs) = map (\<lambda>tx. key_of (ToDynamoDBItem L tx)) txs"
  by (induction txs arbitrary: k) (auto simp: key_of_request)

lemma batchWriteTransactions_log:
  assumes "batchWriteTransactions L clock B st c = (r, st')"
  shows "\<exists>cs. calls st' = calls st @ cs \<and> cs \<noteq> [] \<and> length cs \<le> maxRetries
      \<and> hd cs = write_requests L clock (clock_reads st) c
      \<and> (\<forall>j. Suc j < length cs \<longrightarrow>
            \<not> fails B (length (calls st) + j)
            \<and> cs ! Suc j = filter (leaves B (length (calls st) + j)) (cs ! j)
            \<and> cs ! Suc j \<noteq> [])
      \<and> slept st' = slept st @ map (\<lambda>j. (j + 1) * 100) [0..<length cs - 1]
      \<and> clock_reads st' = clock_reads st + 2 * length c
      \<and> table st' = foldl put_item (table st) (processed B (length (calls st)) cs)
      \<and> (r = None \<longleftrightarrow>
            \<not> fails B (length (calls st) + length cs - 1)
            \<and> filter (leaves B (length (calls st) + length cs - 1)) (last cs) = [])
      \<and> (r = Some (Err ''failed to process all items after 3 retries'') \<longleftrightarrow>
            length cs = maxRetries
            \<and> \<not> fails B (length (calls st) + length cs - 1)
            \<and> filter (leaves B (length (calls st) + length cs - 1)) (last cs) \<noteq> [])
      \<and> (r = Some (Wrap ''failed to batch write items'' ProvisionedThroughputExceededException)
            \<longleftrightarrow> fails B (length (calls st) + length cs - 1))"
  using assms
  unfolding batchWriteTransactions_def retry_loop_unrolled Let_def
  by (auto simp: maxRetries_def nth_Cons' less_Suc_eq numeral_eq_Suc split: if_splits)


lemma batchWriteTransactions_kept:
  assumes "batchWriteTransactions L clock B st c = (r, st')" "get_item (table st) k \<noteq> None"
  shows "get_item (table st') k \<noteq> None"
proof -
  from batchWriteTransactions_log [OF assms(1)] obtain cs where
    "table st' = foldl put_item (table st) (processed B (length (calls st)) cs)" by blast
  with assms(2) show ?thesis by (simp add: get_item_foldl_put_item_kept)
qed

lemma batchWriteTransactions_success_puts:
  assumes "batchWriteTransactions L clock B st c = (None, st')"
  shows "\<exists>puts. table st' = foldl put_item (table st) puts
           \<and> set puts = set (write_requests L clock (clock_reads st) c)"
proof -
  define n where "n = length (calls st)"
  define input where "input = write_requests L clock (clock_reads st) c"
  define u1 where "u1 = filter (leaves B n) input"
  define u2 where "u2 = filter (leaves B (n + 1)) u1"
  define u3 where "u3 = filter (leaves B (n + 2)) u2"
  define p0 where "p0 = filter (\<lambda>i. \<not> leaves B n i) input"
  define p1 where "p1 = filter (\<lambda>i. \<not> leaves B (n + 1) i) u1"
  define p2 where "p2 = filter (\<lambda>i. \<not> leaves B (n + 2) i) u2"
  have sets: "set input = set p0 \<union> set u1" "set u1 = set p1 \<union> set u2"
    "set u2 = set p2 \<union> set u3"
    by (auto simp: p0_def p1_def p2_def u1_def u2_def u3_def)
  have "retry_loop B 0 (st\<lparr>clock_reads := clock_reads st + 2 * length c\<rparr>) input
      = (None, st')"
    using assms by (simp add: batchWriteTransactions_def input_def)
  then have "(u1 = [] \<and> table st' = foldl put_item (table st) p0)
      \<or> (u2 = [] \<and> table st' = foldl put_item (table st) (p0 @ p1))
      \<or> (u3 = [] \<and> table st' = foldl put_item (table st) (p0 @ p1 @ p2))"
    unfolding retry_loop_unrolled Let_def
    by (auto simp: p0_def p1_def p2_def u1_def u2_def u3_def n_def split: if_splits)
  then consider
    (one) "u1 = []" "table st' = foldl put_item (table st) p0"
    | (two) "u2 = []" "table st' = foldl put_item (table st) (p0 @ p1)"
    | (three) "u3 = []" "table st' = foldl put_item (table st) (p0 @ p1 @ p2)"
    by blast
  then show ?thesis
  proof cases
    case one
    with sets have "set p0 = set input" by simp
    with one show ?thesis unfolding input_def by blast
  next
    case two
    with sets have "set (p0 @ p1) = set input" by simp
    with two show ?thesis unfolding input_def by blast
  next
    case three
    with sets have "set (p0 @ p1 @ p2) = set input" by auto
    with three show ?thesis unfolding input_def by blast
  qed
qed

lemma batchWriteTransactions_success_stored:
  assumes "batchWriteTransactions L clock B st c = (None, st')"
    and "i \<in> set (write_requests L clock (clock_reads st) c)"
  shows "\<exists>i' \<in> set (write_requests L clock (clock_reads st) c).
           key_of i' = key_of i \<and> get_item (table st') (key_of i) = Some i'"
proof -
  from batchWriteTransactions_success_puts [OF assms(1)] obtain puts where
    t: "table st' = foldl put_item (table st) puts"
    and s: "set puts = set (write_requests L clock (clock_reads st) c)" by blast
  from assms(2) s have "find (\<lambda>j. key_of j = key_of i) (rev puts) \<noteq> None"
    by (auto simp: find_None_iff)
  then obtain i' where f: "find (\<lambda>j. key_of j = key_of i) (rev puts) = Some i'" by blast
  from find_SomeD [OF this] have "i' \<in> set puts" "key_of i' = key_of i" by auto
  with f s t show ?thesis by (auto simp: get_item_foldl_put_item)
qed

lemma batchWriteTransactions_success_keys:
  assumes "batchWriteTransactions L clock B st c = (None, st')" "tx \<in> set c"
  shows "get_item (table st') (key_of (ToDynamoDBItem L tx)) \<noteq> None"
proof -
  from assms(2) have "key_of (ToDynamoDBItem L tx)
      \<in> set (map key_of (write_requests L clock (clock_reads st) c))"
    by (simp add: keys_of_write_requests)
  then obtain i where "i \<in> set (write_requests L clock (clock_reads st) c)"
    "key_of i = key_of (ToDynamoDBItem L tx)" by auto
  with batchWriteTransactions_success_stored [OF assms(1), of i] show ?thesis by auto
qed

lemma submit_chunks_append:
  "submit_chunks L clock B i st (as @ bs)
     = (case submit_chunks L clock B i st as of
          (None, s1) \<Rightarrow> submit_chunks L clock B (i + length (concat as)) s1 bs
        | (Some e, s1) \<Rightarrow> (Some e, s1))"
proof (induction as arbitrary: i st)
  case Nil
  show ?case by simp
next
  case (Cons a as)
  obtain r s1 where b: "batchWriteTransactions L clock B st a = (r, s1)" by force
  show ?case
    by (cases r) (simp_all add: b Cons.IH add.assoc split: prod.splits option.splits)
qed

lemma submit_chunks_kept:
  assumes "submit_chunks L clock B i st cs = (r, st')" "get_item (table st) k \<noteq> None"
  shows "get_item (table st') k \<noteq> None"
  using assms
proof (induction cs arbitrary: i st)
  case Nil
  then show ?case by simp
next
  case (Cons c cs)
  obtain r1 s1 where b: "batchWriteTransactions L clock B st c = (r1, s1)" by force
  from batchWriteTransactions_kept [OF b Cons.prems(2)]
  have k: "get_item (table s1) k \<noteq> None" .
  show ?case
  proof (cases r1)
    case None
    with Cons.prems(1) b have "submit_chunks L clock B (i + length c) s1 cs = (r, st')" by simp
    from Cons.IH [OF this k] show ?thesis .
  next
    case (Some e)
    with Cons.prems(1) b have "st' = s1" by simp
    with k show ?thesis by simp
  qed
qed

lemma submit_chunks_success_keys:
  assumes "submit_chunks L clock B i st cs = (None, st')" "tx \<in> set (concat cs)"
  shows "get_item (table st') (key_of (ToDynamoDBItem L tx)) \<noteq> None"
  using assms
proof (induction cs arbitrary: i st)
  case Nil
  then show ?case by simp
next
  case (Cons c cs)
  obtain r1 s1 where b: "batchWriteTransactions L clock B st c = (r1, s1)" by force
  with Cons.prems(1) have r1: "r1 = None" by (cases r1) auto
  with Cons.prems(1) b have rest: "submit_chunks L clock B (i + length c) s1 cs = (None, st')"
    by simp
  from Cons.prems(2) consider "tx \<in> set c" | "tx \<in> set (concat cs)" by auto
  then show ?case
  proof cases
    case 1
    from batchWriteTransactions_success_keys [OF b [unfolded r1] 1]
    have "get_item (table s1) (key_of (ToDynamoDBItem L tx)) \<noteq> None" .
    from submit_chunks_kept [OF rest this] show ?thesis .
  next
    case 2
    from Cons.IH [OF rest 2] show ?thesis .
  qed
qed

lemma chunks_Nil: "chunks n [] = []"
  by (subst chunks.simps) simp

lemma chunks_take_drop:
  "0 < n \<Longrightarrow> chunks n xs = chunks n (take (n * k) xs) @ chunks n (drop (n * k) xs)"
proof (induction k arbitrary: xs)
  case 0
  then show ?case by (simp add: chunks_Nil)
next
  case (Suc k)
  show ?case
  proof (cases "xs = []")
    case True
    then show ?thesis by (simp add: chunks_Nil)
  next
    case False
    with Suc.prems have 1: "chunks n xs = take n xs # chunks n (drop n xs)"
      by (subst chunks.simps) simp
    from False Suc.prems have "take (n * Suc k) xs \<noteq> []" by simp
    with Suc.prems have 2: "chunks n (take (n * Suc k) xs)
        = take n (take (n * Suc k) xs) # chunks n (drop n (take (n * Suc k) xs))"
      by (subst chunks.simps) simp
    have 3: "take n (take (n * Suc k) xs) = take n xs" by (simp add: min_def)
    have 4: "drop n (take (n * Suc k) xs) = take (n * k) (drop n xs)"
      by (simp add: drop_take)
    have 5: "drop (n * Suc k) xs = drop (n * k) (drop n xs)"
      by (simp add: add.commute)
    from Suc.IH [OF Suc.prems, of "drop n xs"] show ?thesis
      by (simp only: 1 2 3 4 5) simp
  qed
qed

lemma BatchCreateTransactions_failure:
  assumes pre: "BatchCreateTransactions L clock B st (take (batchSize * k) txs) = (None, s1)"
    and more: "batchSize * k < length txs"
    and fail: "batchWriteTransactions L clock B s1 (take batchSize (drop (batchSize * k) txs))
                 = (Some e, s2)"
  shows "BatchCreateTransactions L clock B st txs
           = (Some (Wrap (''failed to write batch '' @ show_nat (batchSize * k) @ ''-''
                 @ show_nat (min (batchSize * k + batchSize) (length txs))) e), s2)"
    and "\<forall>tx \<in> set (take (batchSize * k) txs).
           get_item (table s2) (key_of (ToDynamoDBItem L tx)) \<noteq> None"
proof -
  let ?pre = "take (batchSize * k) txs"
  let ?c = "take batchSize (drop (batchSize * k) txs)"
  have pos: "0 < batchSize" by (simp add: batchSize_def)
  from pre have p: "submit_chunks L clock B 0 st (chunks batchSize ?pre) = (None, s1)"
    by (simp add: BatchCreateTransactions_refines)
  from more pos have c: "chunks batchSize (drop (batchSize * k) txs)
      = ?c # chunks batchSize (drop batchSize (drop (batchSize * k) txs))"
    by (subst chunks.simps) simp
  have len: "length (concat (chunks batchSize ?pre)) = batchSize * k"
    using more by (simp add: chunks_concat [OF pos])
  have e: "batchSize * k + min (length txs - batchSize * k) batchSize
      = min (batchSize * k + batchSize) (length txs)"
    using more by (auto simp: min_def)
  show "BatchCreateTransactions L clock B st txs
           = (Some (Wrap (''failed to write batch '' @ show_nat (batchSize * k) @ ''-''
                 @ show_nat (min (batchSize * k + batchSize) (length txs))) e), s2)"
    unfolding BatchCreateTransactions_refines
    by (subst chunks_take_drop [OF pos, of txs k])
      (simp add: submit_chunks_append p c len fail e del: append.simps)
  show "\<forall>tx \<in> set ?pre. get_item (table s2) (key_of (ToDynamoDBItem L tx)) \<noteq> None"
  proof
    fix tx
    assume "tx \<in> set ?pre"
    then have "tx \<in> set (concat (chunks batchSize ?pre))" by (simp add: chunks_concat [OF pos])
    from submit_chunks_success_keys [OF p this]
    have "get_item (table s1) (key_of (ToDynamoDBItem L tx)) \<noteq> None" .
    from batchWriteTransactions_kept [OF fail this]
    show "get_item (table s2) (key_of (ToDynamoDBItem L tx)) \<noteq> None" .
  qed
qed

lemma CreateTransaction_existing:
  assumes "get_item tbl (key_of (ToDynamoDBItem L t)) \<noteq> None"
  shows "CreateTransaction L tbl t
           = Inl (Wrap ''failed to create transaction'' ConditionalCheckFailedException)"
  using assms by (simp add: CreateTransaction_def PutItem_def)

text \<open>
  C4. \<open>BatchCreateTransactions\<close> is the submission, in order, of the consecutive chunks of
  the input, which are not empty, have at most 25 transactions, exactly 25 but for the last,
  and make up the input; it stops at the first chunk that fails. Writing a chunk calls the
  store at least once and at most three times: the first request is the chunk, every
  following request is what the store left unprocessed of the request before it, and is
  made after a sleep of 100 ms times the number of calls made for the chunk so far. The
  table changes by puts of the processed items and by nothing else: a put has no condition,
  where \<open>CreateTransaction\<close> fails on a key that is stored. A chunk succeeds exactly when
  a call leaves nothing unprocessed, and then every item of the chunk is stored under its
  key; it fails with \<open>failed to process all items after 3 retries\<close> exactly when the
  third call leaves something unprocessed, and with the error of the store when a call
  fails. When the chunks before a chunk have been written and that chunk fails, the whole
  operation fails with the error of the chunk, in the state the chunk left, and every
  transaction of the chunks before it is still stored under its key.
\<close>

theorem BatchCreateTransactions_chunks_and_retries:
  "BatchCreateTransactions L clock B st txs = submit_chunks L clock B 0 st (chunks batchSize txs)
   \<and> concat (chunks batchSize txs) = txs
   \<and> (\<forall>c \<in> set (chunks batchSize txs). c \<noteq> [] \<and> length c \<le> 25)
   \<and> (\<forall>k. Suc k < length (chunks batchSize txs) \<longrightarrow> length (chunks batchSize txs ! k) = 25)
   \<and> (\<forall>s c r s'. batchWriteTransactions L clock B s c = (r, s') \<longrightarrow>
        (\<exists>cs. calls s' = calls s @ cs \<and> cs \<noteq> [] \<and> length cs \<le> 3
           \<and> hd cs = write_requests L clock (clock_reads s) c
           \<and> (\<forall>j. Suc j < length cs \<longrightarrow>
                 \<not> fails B (length (calls s) + j)
                 \<and> cs ! Suc j = filter (leaves B (length (calls s) + j)) (cs ! j)
                 \<and> cs ! Suc j \<noteq> [])
           \<and> slept s' = slept s @ map (\<lambda>j. (j + 1) * 100) [0..<length cs - 1]
           \<and> table s' = foldl put_item (table s) (processed B (length (calls s)) cs)
           \<and> (r = None \<longleftrightarrow>
                 \<not> fails B (length (calls s) + length cs - 1)
                 \<and> filter (leaves B (length (calls s) + length cs - 1)) (last cs) = [])
           \<and> (r = Some (Err ''failed to process all items after 3 retries'') \<longleftrightarrow>
                 length cs = 3
                 \<and> \<not> fails B (length (calls s) + length cs - 1)
                 \<and> filter (leaves B (length (calls s) + length cs - 1)) (last cs) \<noteq> [])
           \<and> (r = Some (Wrap ''failed to batch write items''
                          ProvisionedThroughputExceededException)
                 \<longleftrightarrow> fails B (length (calls s) + length cs - 1))
           \<and> (r = None \<longrightarrow>
                 (\<forall>i \<in> set (hd cs). \<exists>i' \<in> set (hd cs).
                    key_of i' = key_of i \<and> get_item (table s') (key_of i) = Some i'))
           \<and> (\<forall>k. get_item (table s) k \<noteq> None \<longrightarrow> get_item (table s') k \<noteq> None)))
   \<and> (\<forall>k s1 e s2.
        batchSize * k < length txs \<longrightarrow>
        BatchCreateTransactions L clock B st (take (batchSize * k) txs) = (None, s1) \<longrightarrow>
        batchWriteTransactions L clock B s1 (take batchSize (drop (batchSize * k) txs))
          = (Some e, s2) \<longrightarrow>
        BatchCreateTransactions L clock B st txs
          = (Some (Wrap (''failed to write batch '' @ show_nat (batchSize * k) @ ''-''
                @ show_nat (min (batchSize * k + batchSize) (length txs))) e), s2)
        \<and> (\<forall>tx \<in> set (take (batchSize * k) txs).
              get_item (table s2) (key_of (ToDynamoDBItem L tx)) \<noteq> None))
   \<and> (\<forall>st'. BatchCreateTransactions L clock B st txs = (None, st') \<longrightarrow>
        (\<forall>tx \<in> set txs. get_item (table st') (key_of (ToDynamoDBItem L tx)) \<noteq> None))
   \<and> (\<forall>tbl t. get_item tbl (key_of (ToDynamoDBItem L t)) \<noteq> None \<longrightarrow>
        CreateTransaction L tbl t
          = Inl (Wrap ''failed to create transaction'' ConditionalCheckFailedException))"
proof -
  have pos: "0 < batchSize" by (simp add: batchSize_def)
  have chunk: "\<exists>cs. calls s' = calls s @ cs \<and> cs \<noteq> [] \<and> length cs \<le> 3
           \<and> hd cs = write_requests L clock (clock_reads s) c
           \<and> (\<forall>j. Suc j < length cs \<longrightarrow>
                 \<not> fails B (length (calls s) + j)
                 \<and> cs ! Suc j = filter (leaves B (length (calls s) + j)) (cs ! j)
                 \<and> cs ! Suc j \<noteq> [])
           \<and> slept s' = slept s @ map (\<lambda>j. (j + 1) * 100) [0..<length cs - 1]
           \<and> table s' = foldl put_item (table s) (processed B (length (calls s)) cs)
           \<and> (r = None \<longleftrightarrow>
                 \<not> fails B (length (calls s) + length cs - 1)
                 \<and> filter (leaves B (length (calls s) + length cs - 1)) (last cs) = [])
           \<and> (r = Some (Err ''failed to process all items after 3 retries'') \<longleftrightarrow>
                 length cs = 3
                 \<and> \<not> fails B (length (calls s) + length cs - 1)
                 \<and> filter (leaves B (length (calls s) + length cs - 1)) (last cs) \<noteq> [])
           \<and> (r = Some (Wrap ''failed to batch write items''
                          ProvisionedThroughputExceededException)
                 \<longleftrightarrow> fails B (length (calls s) + length cs - 1))
           \<and> (r = None \<longrightarrow>
                 (\<forall>i \<in> set (hd cs). \<exists>i' \<in> set (hd cs).
                    key_of i' = key_of i \<and> get_item (table s') (key_of i) = Some i'))
           \<and> (\<forall>k. get_item (table s) k \<noteq> None \<longrightarrow> get_item (table s') k \<noteq> None)"
    if b: "batchWriteTransactions L clock B s c = (r, s')" for s c r s'
  proof -
    from batchWriteTransactions_log [OF b] obtain cs where
      cs: "calls s' = calls s @ cs" "cs \<noteq> []" "length cs \<le> maxRetries"
        "hd cs = write_requests L clock (clock_reads s) c"
        "\<forall>j. Suc j < length cs \<longrightarrow>
            \<not> fails B (length (calls s) + j)
            \<and> cs ! Suc j = filter (leaves B (length (calls s) + j)) (cs ! j)
            \<and> cs ! Suc j \<noteq> []"
        "slept s' = slept s @ map (\<lambda>j. (j + 1) * 100) [0..<length cs - 1]"
        "table s' = foldl put_item (table s) (processed B (length (calls s)) cs)"
        "r = None \<longleftrightarrow>
            \<not> fails B (length (calls s) + length cs - 1)
            \<and> filter (leaves B (length (calls s) + length cs - 1)) (last cs) = []"
        "r = Some (Err ''failed to process all items after 3 retries'') \<longleftrightarrow>
            length cs = maxRetries
            \<and> \<not> fails B (length (calls s) + length cs - 1)
            \<and> filter (leaves B (length (calls s) + length cs - 1)) (last cs) \<noteq> []"
        "r = Some (Wrap ''failed to batch write items'' ProvisionedThroughputExceededException)
            \<longleftrightarrow> fails B (length (calls s) + length cs - 1)"
      by blast
    have stored: "\<forall>i \<in> set (hd cs). \<exists>i' \<in> set (hd cs).
        key_of i' = key_of i \<and> get_item (table s') (key_of i) = Some i'" if "r = None"
      using batchWriteTransactions_success_stored [OF b [unfolded that]] cs(4) by simp
    have kept: "\<forall>k. get_item (table s) k \<noteq> None \<longrightarrow> get_item (table s') k \<noteq> None"
      using batchWriteTransactions_kept [OF b] by blast
    from cs stored kept show ?thesis
      unfolding maxRetries_def by (intro exI [of _ cs]) blast
  qed
  have failure: "BatchCreateTransactions L clock B st txs
          = (Some (Wrap (''failed to write batch '' @ show_nat (batchSize * k) @ ''-''
                @ show_nat (min (batchSize * k + batchSize) (length txs))) e), s2)
        \<and> (\<forall>tx \<in> set (take (batchSize * k) txs).
              get_item (table s2) (key_of (ToDynamoDBItem L tx)) \<noteq> None)"
    if "batchSize * k < length txs"
      "BatchCreateTransactions L clock B st (take (batchSize * k) txs) = (None, s1)"
      "batchWriteTransactions L clock B s1 (take batchSize (drop (batchSize * k) txs))
          = (Some e, s2)" for k s1 e s2
    using BatchCreateTransactions_failure [OF that(2) that(1) that(3)] by blast
  have success: "\<forall>tx \<in> set txs. get_item (table st') (key_of (ToDynamoDBItem L tx)) \<noteq> None"
    if "BatchCreateTransactions L clock B st txs = (None, st')" for st'
    using submit_chunks_success_keys [of L clock B 0 st "chunks batchSize txs" st'] that
    by (simp add: BatchCreateTransactions_refines chunks_concat [OF pos])
  have sizes: "\<forall>c \<in> set (chunks batchSize txs). c \<noteq> [] \<and> length c \<le> 25"
    using chunks_member [of _ batchSize txs] by (simp add: batchSize_def)
  have full: "\<forall>k. Suc k < length (chunks batchSize txs) \<longrightarrow> length (chunks batchSize txs ! k) = 25"
    using chunks_full [of _ batchSize txs] by (simp add: batchSize_def)
  show ?thesis
    apply (intro conjI allI impI)
    subgoal by (rule BatchCreateTransactions_refines)
    subgoal by (rule chunks_concat [OF pos])
    subgoal by (rule sizes)
    subgoal using full by blast
    subgoal for s c r s' by (rule chunk)
    subgoal for k s1 e s2 using failure [of k s1 e s2] by blast
    subgoal for k s1 e s2 using failure [of k s1 e s2] by blast
    subgoal for st' by (rule success)
    subgoal for tbl t by (rule CreateTransaction_existing)
    done
qed

theorem BatchCreateTransactions_chunks_and_retries_witness:
  "BatchCreateTransactions stdlib clock0 accepts_first run_start txs26
     = (Some (Wrap ''failed to write batch 25-26''
               (Err ''failed to process all items after 3 retries'')),
        \<lparr>table = foldl put_item [] (write_requests stdlib clock0 0 (take 25 txs26)),
         calls = [write_requests stdlib clock0 0 (take 25 txs26),
                  write_requests stdlib clock0 50 [tx_n 25],
                  write_requests stdlib clock0 50 [tx_n 25],
                  write_requests stdlib clock0 50 [tx_n 25]],
         slept = [100, 200],
         clock_reads = 52\<rparr>)
   \<and> get_item (foldl put_item [] (write_requests stdlib clock0 0 (take 25 txs26)))
        (key_of (ToDynamoDBItem stdlib (tx_n 0))) \<noteq> None"
proof -
  let ?s1 = "\<lparr>table = foldl put_item [] (write_requests stdlib clock0 0 (take 25 txs26)),
         calls = [write_requests stdlib clock0 0 (take 25 txs26)],
         slept = [], clock_reads = 50\<rparr>"
  let ?s2 = "\<lparr>table = foldl put_item [] (write_requests stdlib clock0 0 (take 25 txs26)),
         calls = [write_requests stdlib clock0 0 (take 25 txs26),
                  write_requests stdlib clock0 50 [tx_n 25],
                  write_requests stdlib clock0 50 [tx_n 25],
                  write_requests stdlib clock0 50 [tx_n 25]],
         slept = [100, 200],
         clock_reads = 52\<rparr>"
  have len: "length txs26 = 26" by (simp add: txs26_def)
  have pre: "take 25 txs26 = map tx_n [0..<25]" by (simp add: txs26_def take_map)
  have rest: "take 25 (drop 25 txs26) = [tx_n 25]" by (simp add: txs26_def drop_map)
  have none: "filter (\<lambda>i. False) xs = []" for xs :: "Item list" by simp
  have first: "batchWriteTransactions stdlib clock0 accepts_first run_start (take 25 txs26)
      = (None, ?s1)"
    by (simp add: batchWriteTransactions_def retry_loop_unrolled Let_def run_start_def
        accepts_first_def len)
  have one: "BatchCreateTransactions stdlib clock0 accepts_first run_start (take 25 txs26)
      = (None, ?s1)"
    unfolding BatchCreateTransactions_def
    by (subst batch_loop.simps, simp add: len batchSize_def first Let_def)
      (subst batch_loop.simps, simp add: len)
  have two: "batchWriteTransactions stdlib clock0 accepts_first ?s1 [tx_n 25]
      = (Some (Err ''failed to process all items after 3 retries''), ?s2)"
    by (simp add: batchWriteTransactions_def retry_loop_unrolled Let_def accepts_first_def)
  have digits: "show_nat 25 = ''25''" "show_nat 26 = ''26''"
    by (simp_all add: show_nat.simps digit_def)
  have member: "tx_n 0 \<in> set (take 25 txs26)" by (simp add: pre)
  have h1: "batchSize * 1 < length txs26" by (simp add: batchSize_def len)
  have h2: "BatchCreateTransactions stdlib clock0 accepts_first run_start
      (take (batchSize * 1) txs26) = (None, ?s1)"
    using one by (simp add: batchSize_def)
  have h3: "batchWriteTransactions stdlib clock0 accepts_first ?s1
      (take batchSize (drop (batchSize * 1) txs26))
        = (Some (Err ''failed to process all items after 3 retries''), ?s2)"
    using two rest by (simp add: batchSize_def)
  note failure = BatchCreateTransactions_chunks_and_retries
    [of stdlib clock0 accepts_first run_start txs26, THEN conjunct2, THEN conjunct2,
      THEN conjunct2, THEN conjunct2, THEN conjunct2, THEN conjunct1, rule_format,
      OF h1 h2 h3]
  from failure [THEN conjunct1] failure [THEN conjunct2, rule_format, of "tx_n 0"] member
  show ?thesis by (simp add: batchSize_def len digits)
qed

end
